theory Spec2Isabelle
  imports Main
begin

section \<open>The ACME order handlers of acme/api/order.go\<close>

text \<open>
  A shallow embedding of the three HTTP handlers \<^verbatim>\<open>NewOrder\<close>, \<^verbatim>\<open>GetOrder\<close> and
  \<^verbatim>\<open>FinalizeOrder\<close>, of the two request validators and of the helpers
  \<^verbatim>\<open>newAuthorization\<close> and \<^verbatim>\<open>challengeTypes\<close>.

  The handlers reach storage, the random source, the clock, the linker, the certificate
  authority and the standard library through values taken from the request context.
  None of these is defined in order.go, so each is a parameter of the model: the
  record \<open>collaborators\<close> below collects them, over a state \<open>'s\<close> that stands for
  everything outside the handler that a call can change (the stored records, the random
  source). A handler takes the state at entry and returns the response it renders together
  with the state at exit, so that "nothing was written" reads "the state at exit is the state
  at entry, whatever the collaborators are".
\<close>

subsection \<open>Time\<close>

text \<open>
  A \<^verbatim>\<open>time.Time\<close> is modelled by the number of nanoseconds between Go's zero time and the
  instant, a \<^verbatim>\<open>time.Duration\<close> by its number of nanoseconds. The handlers add a day
  or the provisioner's default duration to the clock reading and take a minute off it; the
  range limits of Go's representation are not modelled.
\<close>

type_synonym time = int
type_synonym duration = int

definition IsZero :: "time \<Rightarrow> bool" where
  "IsZero t = (t = 0)"

definition Add :: "time \<Rightarrow> duration \<Rightarrow> time" where
  "Add t d = t + d"

definition Minute :: duration where
  "Minute = 60 * 1000000000"

definition Hour :: duration where
  "Hour = 60 * Minute"

definition defaultOrderExpiry :: duration where
  "defaultOrderExpiry = Hour * 24"

definition defaultOrderBackdate :: duration where
  "defaultOrderBackdate = Minute"

subsection \<open>Errors and responses\<close>

text \<open>
  A Go \<^verbatim>\<open>error\<close> value. The three constructors of package acme that order.go calls are
  kept as they are called (\<^verbatim>\<open>acme.NewError\<close> with its formatted detail,
  \<^verbatim>\<open>acme.WrapError\<close> and \<^verbatim>\<open>acme.WrapErrorISE\<close> with the wrapped cause and the
  message); \<open>Foreign\<close> is an error that is not made by package acme, with its text.
  The errors of the standard library and of randutil are of this kind: the collaborators
  below that stand for them answer with the text, and the handlers wrap \<open>Foreign\<close> of it.
  Storage and the context lookups may answer with any error.
\<close>

datatype ProblemType = ErrorMalformedType | ErrorUnauthorizedType

datatype error =
    NewError ProblemType string
  | WrapError ProblemType error string
  | WrapErrorISE error string
  | Foreign string

subsection \<open>Identifiers, challenges, authorizations, orders\<close>

text \<open>
  Modelled from the spec: the record types and constants of package acme are declared outside
  order.go. An identifier type is a string in the request body; \<open>DNS\<close> and \<open>IP\<close> are
  the two type constants of package acme (the values registered for ACME), and any other
  string is an unsupported type. The records carry the fields order.go reads or writes;
  a field the handlers never set has Go's zero value (\<open>''''\<close>, \<open>False\<close>, \<open>[]\<close>, \<open>0\<close>).
\<close>

type_synonym IdentifierType = string

definition IP :: IdentifierType where
  "IP = ''ip''"

definition DNS :: IdentifierType where
  "DNS = ''dns''"

record Identifier =
  id_Type :: IdentifierType
  id_Value :: string

datatype ChallengeType = HTTP01 | DNS01 | TLSALPN01

datatype Status = StatusPending | StatusReady | StatusProcessing | StatusValid | StatusInvalid

record Challenge =
  ch_ID :: string
  ch_AccountID :: string
  ch_Type :: ChallengeType
  ch_Value :: string
  ch_Token :: string
  ch_Status :: Status

record Authorization =
  az_ID :: string
  az_AccountID :: string
  az_Identifier :: Identifier
  az_Wildcard :: bool
  az_Status :: Status
  az_Token :: string
  az_Challenges :: "Challenge list"
  az_ExpiresAt :: time

record Order =
  o_ID :: string
  o_AccountID :: string
  o_ProvisionerID :: string
  o_Status :: Status
  o_Identifiers :: "Identifier list"
  o_ExpiresAt :: time
  o_AuthorizationIDs :: "string list"
  o_NotBefore :: time
  o_NotAfter :: time

record Account =
  acc_ID :: string

text \<open>
  The provisioner is an interface value; the handlers call its methods \<^verbatim>\<open>GetID\<close> and
  \<^verbatim>\<open>DefaultTLSCertDuration\<close> only.
\<close>

record Provisioner =
  GetID :: string
  DefaultTLSCertDuration :: duration

record NewOrderRequest =
  nor_Identifiers :: "Identifier list"
  nor_NotBefore :: time
  nor_NotAfter :: time

text \<open>
  \<^verbatim>\<open>FinalizeRequest\<close>: the field \<^verbatim>\<open>CSR\<close> of the body and the parsed request
  \<^verbatim>\<open>csr\<close>, a nil pointer until \<^verbatim>\<open>Validate\<close> sets it.
\<close>

record 'c FinalizeRequest =
  fr_CSR :: string
  fr_csr :: "'c option"

text \<open>
  What a handler writes to the \<^verbatim>\<open>http.ResponseWriter\<close>: \<^verbatim>\<open>render.Error\<close> with
  the error, or the \<^verbatim>\<open>Location\<close> header followed by \<^verbatim>\<open>render.JSONStatus\<close> with the
  order and the status code (\<^verbatim>\<open>render.JSON\<close> is the code 200).
\<close>

datatype response =
    render_Error error
  | render_JSONStatus string Order nat

subsection \<open>Collaborators\<close>

text \<open>
  Modelled from the spec: the interfaces the handlers call and order.go does not define.
  \<^item> \<open>ParseIP\<close>: \<^verbatim>\<open>net.ParseIP\<close>, \<open>None\<close> for the nil result.
  \<^item> \<open>Alphanumeric\<close>: \<^verbatim>\<open>randutil.Alphanumeric\<close>, which consumes randomness.
  \<^item> \<open>Unmarshal_nor\<close>, \<open>Unmarshal_fr\<close>: \<^verbatim>\<open>json.Unmarshal\<close> into a
    \<^verbatim>\<open>NewOrderRequest\<close> and into a \<^verbatim>\<open>FinalizeRequest\<close> (whose only exported field
    is \<^verbatim>\<open>CSR\<close>).
  \<^item> \<open>DecodeString\<close>: \<^verbatim>\<open>base64.RawURLEncoding.DecodeString\<close>;
    \<open>ParseCertificateRequest\<close>, \<open>CheckSignature\<close>: crypto/x509, over a type \<open>'c\<close>
    of parsed certificate requests.
  \<^item> \<open>CreateChallenge\<close>, \<open>CreateAuthorization\<close>, \<open>CreateOrder\<close>, \<open>db_GetOrder\<close>:
    the storage interface (section 6 of the spec: create and get "each returning
    success/failure"). A create operation receives a pointer to the record; order.go reads
    the record's ID after the call and sets it nowhere, so a successful create answers
    with the ID storage has given to the record.
  \<^item> \<open>UpdateStatus\<close>, \<open>Finalize\<close>: the two methods of \<^verbatim>\<open>acme.Order\<close> the handlers
    call; each may change the order and storage, or fail. \<open>Finalize\<close> includes the
    certificate authority taken from the context.
  \<^item> \<open>LinkOrder\<close>, \<open>GetLink\<close>: the linker; \<open>GetLink\<close> is used for the order link type
    only.
\<close>

record ('s, 'c) collaborators =
  ParseIP :: "string \<Rightarrow> nat list option"
  Alphanumeric :: "nat \<Rightarrow> 's \<Rightarrow> (string + string) \<times> 's"
  Unmarshal_nor :: "string \<Rightarrow> string + NewOrderRequest"
  Unmarshal_fr :: "string \<Rightarrow> string + string"
  DecodeString :: "string \<Rightarrow> string + string"
  ParseCertificateRequest :: "string \<Rightarrow> string + 'c"
  CheckSignature :: "'c \<Rightarrow> string option"
  CreateChallenge :: "Challenge \<Rightarrow> 's \<Rightarrow> (error + string) \<times> 's"
  CreateAuthorization :: "Authorization \<Rightarrow> 's \<Rightarrow> (error + string) \<times> 's"
  CreateOrder :: "Order \<Rightarrow> 's \<Rightarrow> (error + string) \<times> 's"
  db_GetOrder :: "string \<Rightarrow> 's \<Rightarrow> (error + Order) \<times> 's"
  UpdateStatus :: "Order \<Rightarrow> 's \<Rightarrow> (error + Order) \<times> 's"
  Finalize :: "Order \<Rightarrow> 'c option \<Rightarrow> Provisioner \<Rightarrow> 's \<Rightarrow> (error + Order) \<times> 's"
  LinkOrder :: "Order \<Rightarrow> Order"
  GetLink :: "string \<Rightarrow> string"

text \<open>
  The request: what \<^verbatim>\<open>accountFromContext\<close>, \<^verbatim>\<open>provisionerFromContext\<close> and
  \<^verbatim>\<open>payloadFromContext\<close> return (an error or the value), the URL parameter
  \<^verbatim>\<open>ordID\<close>, and the reading of \<^verbatim>\<open>clock.Now()\<close> during the request.
\<close>

record request =
  accountFromContext :: "error + Account"
  provisionerFromContext :: "error + Provisioner"
  payloadFromContext :: "error + string"
  ordID :: string
  clock_Now :: time

subsection \<open>Strings\<close>

definition HasPrefix :: "string \<Rightarrow> string \<Rightarrow> bool" where
  "HasPrefix s p = (take (length p) s = p)"

definition TrimPrefix :: "string \<Rightarrow> string \<Rightarrow> string" where
  "TrimPrefix s p = (if HasPrefix s p then drop (length p) s else s)"

text \<open>The verb \<^verbatim>\<open>'%s'\<close> of the two ownership messages: the argument in single quotes.\<close>

definition quoted :: "string \<Rightarrow> string" where
  "quoted s = CHR 0x27 # s @ [CHR 0x27]"

subsection \<open>NewOrderRequest.Validate\<close>

text \<open>The loop over the identifiers: the first identifier that fails a check decides.\<close>

fun Validate_range :: "('s, 'c) collaborators \<Rightarrow> Identifier list \<Rightarrow> error option" where
  "Validate_range c [] = None"
| "Validate_range c (i # ids) =
     (if \<not> (id_Type i = DNS \<or> id_Type i = IP) then
        Some (NewError ErrorMalformedType (''identifier type unsupported: '' @ id_Type i))
      else if id_Type i = IP \<and> ParseIP c (id_Value i) = None then
        Some (NewError ErrorMalformedType (''invalid IP address: '' @ id_Value i))
      else Validate_range c ids)"

definition NewOrderRequest_Validate ::
  "('s, 'c) collaborators \<Rightarrow> NewOrderRequest \<Rightarrow> error option" where
  "NewOrderRequest_Validate c n =
     (if length (nor_Identifiers n) = 0 then
        Some (NewError ErrorMalformedType ''identifiers list cannot be empty'')
      else Validate_range c (nor_Identifiers n))"

subsection \<open>FinalizeRequest.Validate\<close>

text \<open>Returns the error, or the request with its parsed \<^verbatim>\<open>csr\<close> set.\<close>

definition FinalizeRequest_Validate ::
  "('s, 'c) collaborators \<Rightarrow> 'c FinalizeRequest \<Rightarrow> error + 'c FinalizeRequest" where
  "FinalizeRequest_Validate c f =
     (case DecodeString c (fr_CSR f) of
        Inl err \<Rightarrow> Inl (WrapError ErrorMalformedType (Foreign err) ''error base64url decoding csr'')
      | Inr csrBytes \<Rightarrow>
          (case ParseCertificateRequest c csrBytes of
             Inl err \<Rightarrow> Inl (WrapError ErrorMalformedType (Foreign err) ''unable to parse csr'')
           | Inr csr \<Rightarrow>
               (case CheckSignature c csr of
                  Some err \<Rightarrow>
                    Inl (WrapError ErrorMalformedType (Foreign err)
                          ''csr failed signature check'')
                | None \<Rightarrow> Inr (f\<lparr>fr_csr := Some csr\<rparr>))))"

subsection \<open>challengeTypes\<close>

definition challengeTypes :: "Authorization \<Rightarrow> ChallengeType list" where
  "challengeTypes az =
     (if id_Type (az_Identifier az) = IP then [HTTP01, TLSALPN01]
      else if id_Type (az_Identifier az) = DNS then
        (if \<not> az_Wildcard az then [DNS01] @ [HTTP01, TLSALPN01] else [DNS01])
      else [])"

subsection \<open>newAuthorization\<close>

text \<open>
  The loop over \<^verbatim>\<open>chTypes\<close>. Iteration \<open>i\<close> writes slot \<open>i\<close> of the slice made before
  the loop, in index order, and a failing create returns from \<^verbatim>\<open>newAuthorization\<close>
  with the error; \<open>chs\<close> is the part of the slice written so far.
\<close>

fun newAuthorization_range ::
  "('s, 'c) collaborators \<Rightarrow> Authorization \<Rightarrow> ChallengeType list \<Rightarrow> Challenge list \<Rightarrow> 's
     \<Rightarrow> (error + Challenge list) \<times> 's" where
  "newAuthorization_range c az [] chs s = (Inr chs, s)"
| "newAuthorization_range c az (typ # typs) chs s =
     (let ch = \<lparr>ch_ID = '''', ch_AccountID = az_AccountID az, ch_Type = typ,
                ch_Value = id_Value (az_Identifier az), ch_Token = az_Token az,
                ch_Status = StatusPending\<rparr>
      in case CreateChallenge c ch s of
           (Inl err, s') \<Rightarrow> (Inl (WrapErrorISE err ''error creating challenge''), s')
         | (Inr i, s') \<Rightarrow> newAuthorization_range c az typs (chs @ [ch\<lparr>ch_ID := i\<rparr>]) s')"

definition newAuthorization ::
  "('s, 'c) collaborators \<Rightarrow> Authorization \<Rightarrow> 's \<Rightarrow> (error + Authorization) \<times> 's" where
  "newAuthorization c az0 s =
     (let az = (if HasPrefix (id_Value (az_Identifier az0)) ''*.'' then
                  az0\<lparr>az_Wildcard := True,
                      az_Identifier :=
                        \<lparr>id_Type = id_Type (az_Identifier az0),
                         id_Value = TrimPrefix (id_Value (az_Identifier az0)) ''*.''\<rparr>\<rparr>
                else az0);
          chTypes = challengeTypes az
      in case Alphanumeric c 32 s of
           (Inl err, s1) \<Rightarrow>
             (Inl (WrapErrorISE (Foreign err) ''error generating random alphanumeric ID''), s1)
         | (Inr token, s1) \<Rightarrow>
             (let az1 = az\<lparr>az_Token := token\<rparr>
              in case newAuthorization_range c az1 chTypes [] s1 of
                   (Inl e, s2) \<Rightarrow> (Inl e, s2)
                 | (Inr chs, s2) \<Rightarrow>
                     (let az2 = az1\<lparr>az_Challenges := chs\<rparr>
                      in case CreateAuthorization c az2 s2 of
                           (Inl err, s3) \<Rightarrow>
                             (Inl (WrapErrorISE err ''error creating authorization''), s3)
                         | (Inr i, s3) \<Rightarrow> (Inr (az2\<lparr>az_ID := i\<rparr>), s3))))"

subsection \<open>NewOrder\<close>

text \<open>
  The loop over \<^verbatim>\<open>o.Identifiers\<close>: iteration \<open>i\<close> builds the authorization of the
  identifier at index \<open>i\<close>, creates it, and writes its ID at index \<open>i\<close> of
  \<^verbatim>\<open>o.AuthorizationIDs\<close>. The index never leaves the slice, which was made with the
  length of the identifiers.
\<close>

fun NewOrder_range ::
  "('s, 'c) collaborators \<Rightarrow> Account \<Rightarrow> Order \<Rightarrow> Identifier list \<Rightarrow> nat \<Rightarrow> 's
     \<Rightarrow> (error + Order) \<times> 's" where
  "NewOrder_range c acc ord [] i s = (Inr ord, s)"
| "NewOrder_range c acc ord (identifier # rest) i s =
     (let az = \<lparr>az_ID = '''', az_AccountID = acc_ID acc, az_Identifier = identifier,
                az_Wildcard = False, az_Status = StatusPending, az_Token = '''',
                az_Challenges = [], az_ExpiresAt = o_ExpiresAt ord\<rparr>
      in case newAuthorization c az s of
           (Inl err, s') \<Rightarrow> (Inl err, s')
         | (Inr az', s') \<Rightarrow>
             NewOrder_range c acc
               (ord\<lparr>o_AuthorizationIDs := (o_AuthorizationIDs ord)[i := az_ID az']\<rparr>)
               rest (Suc i) s')"

definition NewOrder :: "('s, 'c) collaborators \<Rightarrow> request \<Rightarrow> 's \<Rightarrow> response \<times> 's" where
  "NewOrder c r s =
     (case accountFromContext r of
        Inl err \<Rightarrow> (render_Error err, s)
      | Inr acc \<Rightarrow>
     (case provisionerFromContext r of
        Inl err \<Rightarrow> (render_Error err, s)
      | Inr prov \<Rightarrow>
     (case payloadFromContext r of
        Inl err \<Rightarrow> (render_Error err, s)
      | Inr payload \<Rightarrow>
     (case Unmarshal_nor c payload of
        Inl err \<Rightarrow>
          (render_Error (WrapError ErrorMalformedType (Foreign err)
             ''failed to unmarshal new-order request payload''), s)
      | Inr nor \<Rightarrow>
     (case NewOrderRequest_Validate c nor of
        Some err \<Rightarrow> (render_Error err, s)
      | None \<Rightarrow>
     (let now = clock_Now r;
          ord = \<lparr>o_ID = '''', o_AccountID = acc_ID acc, o_ProvisionerID = GetID prov,
               o_Status = StatusPending, o_Identifiers = nor_Identifiers nor,
               o_ExpiresAt = Add now defaultOrderExpiry,
               o_AuthorizationIDs = replicate (length (nor_Identifiers nor)) '''',
               o_NotBefore = nor_NotBefore nor, o_NotAfter = nor_NotAfter nor\<rparr>
      in case NewOrder_range c acc ord (o_Identifiers ord) 0 s of
           (Inl err, s1) \<Rightarrow> (render_Error err, s1)
         | (Inr ord1, s1) \<Rightarrow>
             (let ord2 = (if IsZero (o_NotBefore ord1) then ord1\<lparr>o_NotBefore := now\<rparr> else ord1);
                  ord3 = (if IsZero (o_NotAfter ord2)
                        then ord2\<lparr>o_NotAfter :=
                                  Add (o_NotBefore ord2) (DefaultTLSCertDuration prov)\<rparr>
                        else ord2);
                  ord4 = (if IsZero (nor_NotBefore nor)
                        then ord3\<lparr>o_NotBefore := Add (o_NotBefore ord3) (- defaultOrderBackdate)\<rparr>
                        else ord3)
              in case CreateOrder c ord4 s1 of
                   (Inl err, s2) \<Rightarrow>
                     (render_Error (WrapErrorISE err ''error creating order''), s2)
                 | (Inr i, s2) \<Rightarrow>
                     (let ord5 = LinkOrder c (ord4\<lparr>o_ID := i\<rparr>)
                      in (render_JSONStatus (GetLink c (o_ID ord5)) ord5 201, s2)))))))))"

subsection \<open>GetOrder\<close>

definition GetOrder :: "('s, 'c) collaborators \<Rightarrow> request \<Rightarrow> 's \<Rightarrow> response \<times> 's" where
  "GetOrder c r s =
     (case accountFromContext r of
        Inl err \<Rightarrow> (render_Error err, s)
      | Inr acc \<Rightarrow>
     (case provisionerFromContext r of
        Inl err \<Rightarrow> (render_Error err, s)
      | Inr prov \<Rightarrow>
     (case db_GetOrder c (ordID r) s of
        (Inl err, s1) \<Rightarrow> (render_Error (WrapErrorISE err ''error retrieving order''), s1)
      | (Inr ord, s1) \<Rightarrow>
          if acc_ID acc \<noteq> o_AccountID ord then
            (render_Error (NewError ErrorUnauthorizedType
               (''account '' @ quoted (acc_ID acc) @ '' does not own order ''
                  @ quoted (o_ID ord))), s1)
          else if GetID prov \<noteq> o_ProvisionerID ord then
            (render_Error (NewError ErrorUnauthorizedType
               (''provisioner '' @ quoted (GetID prov) @ '' does not own order ''
                  @ quoted (o_ID ord))), s1)
          else
            (case UpdateStatus c ord s1 of
               (Inl err, s2) \<Rightarrow>
                 (render_Error (WrapErrorISE err ''error updating order status''), s2)
             | (Inr ord1, s2) \<Rightarrow>
                 (let ord2 = LinkOrder c ord1
                  in (render_JSONStatus (GetLink c (o_ID ord2)) ord2 200, s2))))))"

subsection \<open>FinalizeOrder\<close>

definition FinalizeOrder :: "('s, 'c) collaborators \<Rightarrow> request \<Rightarrow> 's \<Rightarrow> response \<times> 's" where
  "FinalizeOrder c r s =
     (case accountFromContext r of
        Inl err \<Rightarrow> (render_Error err, s)
      | Inr acc \<Rightarrow>
     (case provisionerFromContext r of
        Inl err \<Rightarrow> (render_Error err, s)
      | Inr prov \<Rightarrow>
     (case payloadFromContext r of
        Inl err \<Rightarrow> (render_Error err, s)
      | Inr payload \<Rightarrow>
     (case Unmarshal_fr c payload of
        Inl err \<Rightarrow>
          (render_Error (WrapError ErrorMalformedType (Foreign err)
             ''failed to unmarshal finalize-order request payload''), s)
      | Inr csr_field \<Rightarrow>
     (case FinalizeRequest_Validate c \<lparr>fr_CSR = csr_field, fr_csr = None\<rparr> of
        Inl err \<Rightarrow> (render_Error err, s)
      | Inr fr \<Rightarrow>
     (case db_GetOrder c (ordID r) s of
        (Inl err, s1) \<Rightarrow> (render_Error (WrapErrorISE err ''error retrieving order''), s1)
      | (Inr ord, s1) \<Rightarrow>
          if acc_ID acc \<noteq> o_AccountID ord then
            (render_Error (NewError ErrorUnauthorizedType
               (''account '' @ quoted (acc_ID acc) @ '' does not own order ''
                  @ quoted (o_ID ord))), s1)
          else if GetID prov \<noteq> o_ProvisionerID ord then
            (render_Error (NewError ErrorUnauthorizedType
               (''provisioner '' @ quoted (GetID prov) @ '' does not own order ''
                  @ quoted (o_ID ord))), s1)
          else
            (case Finalize c ord (fr_csr fr) prov s1 of
               (Inl err, s2) \<Rightarrow>
                 (render_Error (WrapErrorISE err ''error finalizing order''), s2)
             | (Inr ord1, s2) \<Rightarrow>
                 (let ord2 = LinkOrder c ord1
                  in (render_JSONStatus (GetLink c (o_ID ord2)) ord2 200, s2)))))))))"

section \<open>An instance for running the handlers\<close>

text \<open>
  The theorems below hold for every choice of the collaborators. To run the handlers on
  concrete requests, the examples use a storage kept in memory: the records created so far,
  the IDs storage will hand out next, and the characters the random source will deliver
  next. A create fails when no ID is left, a read fails when no order has the ID.
\<close>

record store =
  st_challenges :: "Challenge list"
  st_authorizations :: "Authorization list"
  st_orders :: "Order list"
  st_ids :: "string list"
  st_random :: string

definition mem_Alphanumeric :: "nat \<Rightarrow> store \<Rightarrow> (string + string) \<times> store" where
  "mem_Alphanumeric n s =
     (if length (st_random s) < n then (Inl ''random source failed'', s)
      else (Inr (take n (st_random s)), s\<lparr>st_random := drop n (st_random s)\<rparr>))"

definition mem_CreateChallenge :: "Challenge \<Rightarrow> store \<Rightarrow> (error + string) \<times> store" where
  "mem_CreateChallenge ch s =
     (case st_ids s of
        [] \<Rightarrow> (Inl (Foreign ''storage failed''), s)
      | i # ids \<Rightarrow>
          (Inr i, s\<lparr>st_ids := ids, st_challenges := st_challenges s @ [ch\<lparr>ch_ID := i\<rparr>]\<rparr>))"

definition mem_CreateAuthorization ::
  "Authorization \<Rightarrow> store \<Rightarrow> (error + string) \<times> store" where
  "mem_CreateAuthorization az s =
     (case st_ids s of
        [] \<Rightarrow> (Inl (Foreign ''storage failed''), s)
      | i # ids \<Rightarrow>
          (Inr i, s\<lparr>st_ids := ids,
                     st_authorizations := st_authorizations s @ [az\<lparr>az_ID := i\<rparr>]\<rparr>))"

definition mem_CreateOrder :: "Order \<Rightarrow> store \<Rightarrow> (error + string) \<times> store" where
  "mem_CreateOrder ord s =
     (case st_ids s of
        [] \<Rightarrow> (Inl (Foreign ''storage failed''), s)
      | i # ids \<Rightarrow>
          (Inr i, s\<lparr>st_ids := ids, st_orders := st_orders s @ [ord\<lparr>o_ID := i\<rparr>]\<rparr>))"

definition mem_GetOrder :: "string \<Rightarrow> store \<Rightarrow> (error + Order) \<times> store" where
  "mem_GetOrder i s =
     (case find (\<lambda>ord. o_ID ord = i) (st_orders s) of
        None \<Rightarrow> (Inl (Foreign ''order not found''), s)
      | Some ord \<Rightarrow> (Inr ord, s))"

text \<open>
  The other collaborators of the examples are tables over the few inputs the examples use:
  the address \<open>192.0.2.1\<close> is the one string that parses as an IP address; the payload
  \<open>new-order\<close> unmarshals to the request \<open>nor\<close> given; a finalize payload is its own
  \<^verbatim>\<open>CSR\<close> field; a CSR field decodes unless it starts with \<open>!\<close>; the decoded bytes
  \<open>csr\<close> and \<open>csr-badsig\<close> parse as certificate requests, and the second fails its
  signature check. Status recomputation and finalization leave the order as it is, and the
  linker adds nothing to the fields modelled.
\<close>

definition example_collaborators :: "NewOrderRequest \<Rightarrow> (store, string) collaborators" where
  "example_collaborators nor =
     \<lparr>ParseIP = (\<lambda>v. if v = ''192.0.2.1'' then Some [192, 0, 2, 1] else None),
      Alphanumeric = mem_Alphanumeric,
      Unmarshal_nor = (\<lambda>p. if p = ''new-order'' then Inr nor
                            else Inl ''unexpected end of JSON input''),
      Unmarshal_fr = (\<lambda>p. if p = '''' then Inl ''unexpected end of JSON input''
                           else Inr p),
      DecodeString = (\<lambda>v. if HasPrefix v ''!'' then Inl ''illegal base64 data''
                           else Inr v),
      ParseCertificateRequest =
        (\<lambda>b. if b = ''csr'' \<or> b = ''csr-badsig'' then Inr b
              else Inl ''asn1: syntax error''),
      CheckSignature = (\<lambda>csr. if csr = ''csr-badsig''
                               then Some ''x509: signature check failed'' else None),
      CreateChallenge = mem_CreateChallenge,
      CreateAuthorization = mem_CreateAuthorization,
      CreateOrder = mem_CreateOrder,
      db_GetOrder = mem_GetOrder,
      UpdateStatus = (\<lambda>ord s. (Inr ord, s)),
      Finalize = (\<lambda>ord csr prov s. (Inr ord, s)),
      LinkOrder = (\<lambda>ord. ord),
      GetLink = (\<lambda>i. ''/acme/order/'' @ i)\<rparr>"

definition example_store :: store where
  "example_store =
     \<lparr>st_challenges = [], st_authorizations = [], st_orders = [],
      st_ids = [''id1'', ''id2'', ''id3'', ''id4'', ''id5'', ''id6'', ''id7'', ''id8''],
      st_random = ''Zk3v9QmT1xLp7Rw2Yb8NcH5dGs4JfU6a'' @ ''e0AqXoCiVtWnMzBlDyEuFhKgIjOrPS12''\<rparr>"

definition example_request :: request where
  "example_request =
     \<lparr>accountFromContext = Inr \<lparr>acc_ID = ''acc1''\<rparr>,
      provisionerFromContext =
        Inr \<lparr>GetID = ''prov1'', DefaultTLSCertDuration = 24 * Hour\<rparr>,
      payloadFromContext = Inr ''new-order'',
      ordID = ''id1'',
      clock_Now = 1000 * Hour\<rparr>"

text \<open>
  Modelled from the spec: what \<^verbatim>\<open>randutil.Alphanumeric\<close> promises for its result (the
  library is not part of order.go): a string of the length asked for, made of the letters
  \<open>a-z\<close>, \<open>A-Z\<close> and the digits. \<open>Alphanumeric_contract c n s\<close> says that the call
  \<open>Alphanumeric c n\<close> in state \<open>s\<close> keeps the promise.
\<close>

definition alphanumeric :: "string \<Rightarrow> bool" where
  "alphanumeric t =
     list_all (\<lambda>x. x \<in> set (''abcdefghijklmnopqrstuvwxyz'' @ ''ABCDEFGHIJKLMNOPQRSTUVWXYZ''
                                 @ ''0123456789'')) t"


text \<open>The authorizations and requests of the examples.\<close>

definition example_az :: "IdentifierType \<Rightarrow> string \<Rightarrow> Authorization" where
  "example_az typ v =
     \<lparr>az_ID = '''', az_AccountID = ''acc1'',
      az_Identifier = \<lparr>id_Type = typ, id_Value = v\<rparr>, az_Wildcard = False,
      az_Status = StatusPending, az_Token = '''', az_Challenges = [], az_ExpiresAt = 1024 * Hour\<rparr>"

definition example_nor :: "Identifier list \<Rightarrow> NewOrderRequest" where
  "example_nor ids = \<lparr>nor_Identifiers = ids, nor_NotBefore = 0, nor_NotAfter = 0\<rparr>"

text \<open>
  Two runs of \<^verbatim>\<open>newAuthorization\<close> on the storage of the examples: for the wildcard
  name \<open>*.example.com\<close> and for the plain name \<open>example.com\<close>.
\<close>

definition example_wildcard_run :: "(error + Authorization) \<times> store" where
  "example_wildcard_run =
     newAuthorization (example_collaborators (example_nor []))
       (example_az DNS ''*.example.com'') example_store"

definition example_plain_run :: "(error + Authorization) \<times> store" where
  "example_plain_run =
     newAuthorization (example_collaborators (example_nor []))
       (example_az DNS ''example.com'') example_store"

text \<open>
  A storage that holds one order of the account \<open>acc1\<close> under the provisioner \<open>prov1\<close>,
  and the request for this order made by the account \<open>a\<close> under the provisioner \<open>p\<close> with
  the payload given.
\<close>

definition example_order :: Order where
  "example_order =
     \<lparr>o_ID = ''ord1'', o_AccountID = ''acc1'', o_ProvisionerID = ''prov1'',
      o_Status = StatusPending,
      o_Identifiers = [\<lparr>id_Type = DNS, id_Value = ''example.com''\<rparr>],
      o_ExpiresAt = 1024 * Hour, o_AuthorizationIDs = [''az1''],
      o_NotBefore = 1000 * Hour, o_NotAfter = 1024 * Hour\<rparr>"

definition example_store_ord :: store where
  "example_store_ord = example_store\<lparr>st_orders := [example_order]\<rparr>"

definition example_request_by :: "string \<Rightarrow> string \<Rightarrow> string \<Rightarrow> request" where
  "example_request_by a p payload =
     \<lparr>accountFromContext = Inr \<lparr>acc_ID = a\<rparr>,
      provisionerFromContext = Inr \<lparr>GetID = p, DefaultTLSCertDuration = 24 * Hour\<rparr>,
      payloadFromContext = Inr payload,
      ordID = ''ord1'',
      clock_Now = 1000 * Hour\<rparr>"

text \<open>
  The example of section 8 of the spec: a new order for the one identifier
  \<open>*.example.com\<close> with neither \<^verbatim>\<open>notBefore\<close> nor \<^verbatim>\<open>notAfter\<close>, at the time
  \<open>1000 * Hour\<close>, under a provisioner whose default certificate duration is 24 hours;
  and the order this run is found to create.
\<close>

definition example_new_order_run :: "response \<times> store" where
  "example_new_order_run =
     NewOrder (example_collaborators (example_nor [\<lparr>id_Type = DNS, id_Value = ''*.example.com''\<rparr>]))
       example_request example_store"

definition example_created_order :: Order where
  "example_created_order =
     \<lparr>o_ID = ''id3'', o_AccountID = ''acc1'', o_ProvisionerID = ''prov1'',
      o_Status = StatusPending,
      o_Identifiers = [\<lparr>id_Type = DNS, id_Value = ''*.example.com''\<rparr>],
      o_ExpiresAt = 1024 * Hour, o_AuthorizationIDs = [''id2''],
      o_NotBefore = 1000 * Hour - Minute, o_NotAfter = 1024 * Hour\<rparr>"

text \<open>
  A second storage for the examples, which never fails: it numbers the records it creates
  (the ID of the \<open>n\<close>-th record is \<open>id\<close> followed by \<open>n\<close> in decimal), and its random
  source delivers the letters and digits in rotation. The other collaborators are the
  tables of \<open>example_collaborators\<close>.
\<close>

record numbered_store =
  ns_challenges :: "Challenge list"
  ns_authorizations :: "Authorization list"
  ns_orders :: "Order list"
  ns_created :: nat
  ns_drawn :: nat

fun decimal :: "nat \<Rightarrow> string" where
  "decimal n =
     (if n < 10 then [''0123456789'' ! n]
      else decimal (n div 10) @ [''0123456789'' ! (n mod 10)])"

declare decimal.simps [simp del]

definition ns_ID :: "numbered_store \<Rightarrow> string" where
  "ns_ID s = ''id'' @ decimal (ns_created s + 1)"

definition ns_Alphanumeric ::
  "nat \<Rightarrow> numbered_store \<Rightarrow> (string + string) \<times> numbered_store" where
  "ns_Alphanumeric n s =
     (Inr (map (\<lambda>k. (''abcdefghijklmnopqrstuvwxyz'' @ ''ABCDEFGHIJKLMNOPQRSTUVWXYZ''
                        @ ''0123456789'') ! ((ns_drawn s + k) mod 62)) [0..<n]),
      s\<lparr>ns_drawn := ns_drawn s + n\<rparr>)"

definition ns_CreateChallenge ::
  "Challenge \<Rightarrow> numbered_store \<Rightarrow> (error + string) \<times> numbered_store" where
  "ns_CreateChallenge ch s =
     (Inr (ns_ID s),
      s\<lparr>ns_created := ns_created s + 1,
        ns_challenges := ns_challenges s @ [ch\<lparr>ch_ID := ns_ID s\<rparr>]\<rparr>)"

definition ns_CreateAuthorization ::
  "Authorization \<Rightarrow> numbered_store \<Rightarrow> (error + string) \<times> numbered_store" where
  "ns_CreateAuthorization az s =
     (Inr (ns_ID s),
      s\<lparr>ns_created := ns_created s + 1,
        ns_authorizations := ns_authorizations s @ [az\<lparr>az_ID := ns_ID s\<rparr>]\<rparr>)"

definition ns_CreateOrder ::
  "Order \<Rightarrow> numbered_store \<Rightarrow> (error + string) \<times> numbered_store" where
  "ns_CreateOrder ord s =
     (Inr (ns_ID s),
      s\<lparr>ns_created := ns_created s + 1,
        ns_orders := ns_orders s @ [ord\<lparr>o_ID := ns_ID s\<rparr>]\<rparr>)"

definition ns_GetOrder ::
  "string \<Rightarrow> numbered_store \<Rightarrow> (error + Order) \<times> numbered_store" where
  "ns_GetOrder i s =
     (case find (\<lambda>ord. o_ID ord = i) (ns_orders s) of
        None \<Rightarrow> (Inl (Foreign ''order not found''), s)
      | Some ord \<Rightarrow> (Inr ord, s))"

definition numbered_collaborators ::
  "NewOrderRequest \<Rightarrow> (numbered_store, string) collaborators" where
  "numbered_collaborators nor =
     \<lparr>ParseIP = ParseIP (example_collaborators nor),
      Alphanumeric = ns_Alphanumeric,
      Unmarshal_nor = Unmarshal_nor (example_collaborators nor),
      Unmarshal_fr = Unmarshal_fr (example_collaborators nor),
      DecodeString = DecodeString (example_collaborators nor),
      ParseCertificateRequest = ParseCertificateRequest (example_collaborators nor),
      CheckSignature = CheckSignature (example_collaborators nor),
      CreateChallenge = ns_CreateChallenge,
      CreateAuthorization = ns_CreateAuthorization,
      CreateOrder = ns_CreateOrder,
      db_GetOrder = ns_GetOrder,
      UpdateStatus = (\<lambda>ord s. (Inr ord, s)),
      Finalize = (\<lambda>ord csr prov s. (Inr ord, s)),
      LinkOrder = (\<lambda>ord. ord),
      GetLink = (\<lambda>i. ''/acme/order/'' @ i)\<rparr>"

definition numbered_store_empty :: numbered_store where
  "numbered_store_empty =
     \<lparr>ns_challenges = [], ns_authorizations = [], ns_orders = [],
      ns_created = 0, ns_drawn = 0\<rparr>"

text \<open>
  A new order for two identifiers, a wildcard DNS name and an IP address, on the numbered
  storage with nothing in it; \<open>response_order\<close> is the order a response carries, if any.
\<close>

definition example_two :: "Identifier list" where
  "example_two =
     [\<lparr>id_Type = DNS, id_Value = ''*.example.com''\<rparr>,
      \<lparr>id_Type = IP, id_Value = ''192.0.2.1''\<rparr>]"

definition numbered_run :: "response \<times> numbered_store" where
  "numbered_run =
     NewOrder (numbered_collaborators (example_nor example_two)) example_request
       numbered_store_empty"

definition response_order :: "response \<Rightarrow> Order option" where
  "response_order resp =
     (case resp of render_Error err \<Rightarrow> None | render_JSONStatus loc ord code \<Rightarrow> Some ord)"

section \<open>Properties\<close>

subsection \<open>Strings and identifier types\<close>

lemma IP_neq_DNS: "IP \<noteq> DNS"
  by (simp add: IP_def DNS_def)

lemma HasPrefix_append: "HasPrefix (p @ rest) p"
  by (simp add: HasPrefix_def)

lemma TrimPrefix_append: "TrimPrefix (p @ rest) p = rest"
  by (simp add: TrimPrefix_def HasPrefix_def)

lemma HasPrefix_wildcard_iff: "HasPrefix v ''*.'' \<longleftrightarrow> (\<exists>rest. v = ''*.'' @ rest)"
proof
  assume "HasPrefix v ''*.''"
  then have "take (length ''*.'') v = ''*.''" by (simp only: HasPrefix_def)
  then have "v = ''*.'' @ drop (length ''*.'') v" by (metis append_take_drop_id)
  then show "\<exists>rest. v = ''*.'' @ rest" ..
next
  assume "\<exists>rest. v = ''*.'' @ rest"
  then show "HasPrefix v ''*.''" by (auto simp: HasPrefix_def)
qed

lemma newAuthorization_range_result:
  "newAuthorization_range c az typs chs s = (Inr chs', s') \<Longrightarrow>
     map ch_Type chs' = map ch_Type chs @ typs \<and>
     (\<forall>ch \<in> set chs'. ch \<in> set chs \<or>
        (ch_Token ch = az_Token az \<and> ch_Value ch = id_Value (az_Identifier az)
         \<and> ch_AccountID ch = az_AccountID az \<and> ch_Status ch = StatusPending))"
proof (induction typs arbitrary: chs s)
  case Nil
  then show ?case by simp
next
  case (Cons t typs)
  let ?ch = "\<lparr>ch_ID = '''', ch_AccountID = az_AccountID az, ch_Type = t,
              ch_Value = id_Value (az_Identifier az), ch_Token = az_Token az,
              ch_Status = StatusPending\<rparr>"
  from Cons.prems obtain i s1 where
    mk: "CreateChallenge c ?ch s = (Inr i, s1)" and
    rest: "newAuthorization_range c az typs (chs @ [?ch\<lparr>ch_ID := i\<rparr>]) s1 = (Inr chs', s')"
    by (auto simp: Let_def split: prod.splits sum.splits)
  from Cons.IH [OF rest] show ?case by auto
qed

text \<open>What a successful \<^verbatim>\<open>newAuthorization\<close> did, step by step; \<open>az\<close> is the authorization after
  the wildcard step.\<close>

lemma newAuthorization_success:
  assumes run: "newAuthorization c az0 s = (Inr az', s')"
    and az: "az = (if HasPrefix (id_Value (az_Identifier az0)) ''*.'' then
                  az0\<lparr>az_Wildcard := True,
                      az_Identifier :=
                        \<lparr>id_Type = id_Type (az_Identifier az0),
                         id_Value = TrimPrefix (id_Value (az_Identifier az0)) ''*.''\<rparr>\<rparr>
                else az0)"
  shows "\<exists>token s1 chs s2 i.
           Alphanumeric c 32 s = (Inr token, s1) \<and>
           newAuthorization_range c (az\<lparr>az_Token := token\<rparr>) (challengeTypes az) [] s1
             = (Inr chs, s2) \<and>
           CreateAuthorization c (az\<lparr>az_Token := token, az_Challenges := chs\<rparr>) s2
             = (Inr i, s') \<and>
           az' = az\<lparr>az_Token := token, az_Challenges := chs, az_ID := i\<rparr>"
proof -
  from run have
    "(case Alphanumeric c 32 s of
           (Inl err, s1) \<Rightarrow>
             (Inl (WrapErrorISE (Foreign err) ''error generating random alphanumeric ID''),
              s1)
         | (Inr token, s1) \<Rightarrow>
             (case newAuthorization_range c (az\<lparr>az_Token := token\<rparr>) (challengeTypes az) [] s1 of
                   (Inl e, s2) \<Rightarrow> (Inl e, s2)
                 | (Inr chs, s2) \<Rightarrow>
                     (case CreateAuthorization c (az\<lparr>az_Token := token, az_Challenges := chs\<rparr>) s2 of
                           (Inl err, s3) \<Rightarrow>
                             (Inl (WrapErrorISE err ''error creating authorization''), s3)
                         | (Inr i, s3) \<Rightarrow>
                             (Inr (az\<lparr>az_Token := token, az_Challenges := chs, az_ID := i\<rparr>), s3))))
     = (Inr az', s')"
    unfolding newAuthorization_def Let_def az [symmetric] by simp
  then show ?thesis
    by (auto split: prod.splits sum.splits)
qed

subsection \<open>Early returns of the handlers\<close>

lemma FinalizeRequest_Validate_error:
  "FinalizeRequest_Validate c f = Inl e \<Longrightarrow>
     \<exists>cause msg. e = WrapError ErrorMalformedType (Foreign cause) msg"
  by (auto simp: FinalizeRequest_Validate_def split: sum.splits option.splits)

lemma FinalizeRequest_Validate_collaborators:
  "FinalizeRequest_Validate (c\<lparr>db_GetOrder := g, Finalize := f\<rparr>) fr
     = FinalizeRequest_Validate c fr"
  by (simp add: FinalizeRequest_Validate_def cong: sum.case_cong option.case_cong)

lemma FinalizeOrder_invalid:
  assumes "accountFromContext r = Inr acc" and "provisionerFromContext r = Inr prov"
    and "payloadFromContext r = Inr payload" and "Unmarshal_fr c payload = Inr csr"
    and "FinalizeRequest_Validate c \<lparr>fr_CSR = csr, fr_csr = None\<rparr> = Inl e"
  shows "FinalizeOrder c r s = (render_Error e, s)"
  using assms by (simp add: FinalizeOrder_def)

lemma FinalizeOrder_unmarshal_error:
  assumes "accountFromContext r = Inr acc" and "provisionerFromContext r = Inr prov"
    and "payloadFromContext r = Inr payload" and "Unmarshal_fr c payload = Inl e"
  shows "FinalizeOrder c r s
     = (render_Error (WrapError ErrorMalformedType (Foreign e)
          ''failed to unmarshal finalize-order request payload''), s)"
  using assms by (simp add: FinalizeOrder_def)

lemma GetOrder_mismatch:
  assumes "accountFromContext r = Inr acc" and "provisionerFromContext r = Inr prov"
    and "db_GetOrder c (ordID r) s = (Inr ord, s1)"
    and "acc_ID acc \<noteq> o_AccountID ord \<or> GetID prov \<noteq> o_ProvisionerID ord"
  shows "GetOrder c r s =
     (render_Error (NewError ErrorUnauthorizedType
        (if acc_ID acc \<noteq> o_AccountID ord
         then ''account '' @ quoted (acc_ID acc) @ '' does not own order '' @ quoted (o_ID ord)
         else ''provisioner '' @ quoted (GetID prov) @ '' does not own order ''
                @ quoted (o_ID ord))), s1)"
  using assms by (auto simp add: GetOrder_def)

lemma FinalizeOrder_mismatch:
  assumes "accountFromContext r = Inr acc" and "provisionerFromContext r = Inr prov"
    and "payloadFromContext r = Inr payload" and "Unmarshal_fr c payload = Inr csr"
    and "FinalizeRequest_Validate c \<lparr>fr_CSR = csr, fr_csr = None\<rparr> = Inr fr"
    and "db_GetOrder c (ordID r) s = (Inr ord, s1)"
    and "acc_ID acc \<noteq> o_AccountID ord \<or> GetID prov \<noteq> o_ProvisionerID ord"
  shows "FinalizeOrder c r s =
     (render_Error (NewError ErrorUnauthorizedType
        (if acc_ID acc \<noteq> o_AccountID ord
         then ''account '' @ quoted (acc_ID acc) @ '' does not own order '' @ quoted (o_ID ord)
         else ''provisioner '' @ quoted (GetID prov) @ '' does not own order ''
                @ quoted (o_ID ord))), s1)"
  using assms by (auto simp add: FinalizeOrder_def)

subsection \<open>Validation and the fan-out of \<^verbatim>\<open>NewOrder\<close>\<close>

lemma Validate_range_invalid:
  "\<exists>i \<in> set ids. (id_Type i \<noteq> DNS \<and> id_Type i \<noteq> IP) \<or>
       (id_Type i = IP \<and> ParseIP c (id_Value i) = None) \<Longrightarrow>
     \<exists>msg. Validate_range c ids = Some (NewError ErrorMalformedType msg)"
  by (induction ids) auto

lemma Validate_range_ip:
  "\<forall>i \<in> set ids. id_Type i = DNS \<or> id_Type i = IP \<Longrightarrow>
     Validate_range c ids = Some e \<Longrightarrow>
     \<exists>i \<in> set ids. id_Type i = IP \<and> ParseIP c (id_Value i) = None \<and>
        e = NewError ErrorMalformedType (''invalid IP address: '' @ id_Value i)"
  by (induction ids) (auto split: if_splits)

lemma Validate_range_first:
  "\<forall>j \<in> set good. (id_Type j = DNS \<or> id_Type j = IP) \<and>
       (id_Type j = IP \<longrightarrow> ParseIP c (id_Value j) \<noteq> None) \<Longrightarrow>
     Validate_range c (good @ rest) = Validate_range c rest"
  by (induction good) auto

lemma NewOrder_invalid:
  assumes "accountFromContext r = Inr acc" and "provisionerFromContext r = Inr prov"
    and "payloadFromContext r = Inr payload" and "Unmarshal_nor c payload = Inr nor"
    and "NewOrderRequest_Validate c nor = Some e"
  shows "NewOrder c r s = (render_Error e, s)"
  using assms by (simp add: NewOrder_def)

lemma newAuthorization_keeps:
  assumes run: "newAuthorization c az s = (Inr az', s')"
  shows "az_ExpiresAt az' = az_ExpiresAt az \<and> az_AccountID az' = az_AccountID az \<and>
         az_Status az' = az_Status az"
proof -
  define az1 where
    "az1 = (if HasPrefix (id_Value (az_Identifier az)) ''*.'' then
                  az\<lparr>az_Wildcard := True,
                      az_Identifier :=
                        \<lparr>id_Type = id_Type (az_Identifier az),
                         id_Value = TrimPrefix (id_Value (az_Identifier az)) ''*.''\<rparr>\<rparr>
                else az)"
  from newAuthorization_success [OF run az1_def] obtain token chs i where
    az': "az' = az1\<lparr>az_Token := token, az_Challenges := chs, az_ID := i\<rparr>"
    by blast
  have "az_ExpiresAt az1 = az_ExpiresAt az \<and> az_AccountID az1 = az_AccountID az \<and>
         az_Status az1 = az_Status az"
    by (simp add: az1_def)
  then show ?thesis by (simp add: az')
qed

text \<open>
  The loop of \<^verbatim>\<open>NewOrder\<close>, when it ends without an error: one successful
  \<^verbatim>\<open>newAuthorization\<close> per identifier, in order, each starting in the state the one before
  left (\<open>ss\<close> lists these states), and the IDs written from index \<open>i\<close> on.
\<close>

lemma NewOrder_range_result:
  assumes "NewOrder_range c acc ord ids i s = (Inr ord', s')"
    and "i + length ids \<le> length (o_AuthorizationIDs ord)"
  shows "\<exists>azs ss.
     length azs = length ids \<and> length ss = Suc (length ids) \<and>
     ss ! 0 = s \<and> ss ! length ids = s' \<and>
     (\<forall>k < length ids.
        newAuthorization c
          \<lparr>az_ID = '''', az_AccountID = acc_ID acc, az_Identifier = ids ! k,
           az_Wildcard = False, az_Status = StatusPending, az_Token = '''',
           az_Challenges = [], az_ExpiresAt = o_ExpiresAt ord\<rparr> (ss ! k)
        = (Inr (azs ! k), ss ! Suc k)) \<and>
     ord' = ord\<lparr>o_AuthorizationIDs :=
                   take i (o_AuthorizationIDs ord) @ map az_ID azs
                     @ drop (i + length ids) (o_AuthorizationIDs ord)\<rparr>"
  using assms
proof (induction ids arbitrary: ord i s)
  case Nil
  have "ord' = ord" and "s' = s" using Nil.prems(1) by simp_all
  then have "length ([] :: Authorization list) = length ([] :: Identifier list) \<and>
     length [s] = Suc (length ([] :: Identifier list)) \<and>
     [s] ! 0 = s \<and> [s] ! length ([] :: Identifier list) = s' \<and>
     ord' = ord\<lparr>o_AuthorizationIDs :=
                   take i (o_AuthorizationIDs ord) @ map az_ID ([] :: Authorization list)
                     @ drop (i + length ([] :: Identifier list)) (o_AuthorizationIDs ord)\<rparr>"
    by simp
  then show ?case by (intro exI [of _ "[]"] exI [of _ "[s]"]) simp
next
  case (Cons x rest)
  let ?az = "\<lparr>az_ID = '''', az_AccountID = acc_ID acc, az_Identifier = x,
           az_Wildcard = False, az_Status = StatusPending, az_Token = '''',
           az_Challenges = [], az_ExpiresAt = o_ExpiresAt ord\<rparr>"
  let ?L = "o_AuthorizationIDs ord"
  from Cons.prems(1) obtain az1 s1 where
    mk: "newAuthorization c ?az s = (Inr az1, s1)" and
    rest: "NewOrder_range c acc (ord\<lparr>o_AuthorizationIDs := ?L[i := az_ID az1]\<rparr>) rest (Suc i) s1
             = (Inr ord', s')"
    by (auto simp: Let_def split: prod.splits sum.splits)
  let ?ord1 = "ord\<lparr>o_AuthorizationIDs := ?L[i := az_ID az1]\<rparr>"
  from Cons.prems(2) have il: "i < length ?L" and bound: "Suc i + length rest \<le> length ?L"
    by simp_all
  have bound1: "Suc i + length rest \<le> length (o_AuthorizationIDs ?ord1)"
    using bound by simp
  from Cons.IH [OF rest bound1] obtain azs ss where
    la: "length azs = length rest" and ls: "length ss = Suc (length rest)" and
    s0: "ss ! 0 = s1" and sn: "ss ! length rest = s'" and
    steps: "\<forall>k < length rest.
        newAuthorization c
          \<lparr>az_ID = '''', az_AccountID = acc_ID acc, az_Identifier = rest ! k,
           az_Wildcard = False, az_Status = StatusPending, az_Token = '''',
           az_Challenges = [], az_ExpiresAt = o_ExpiresAt ?ord1\<rparr> (ss ! k)
        = (Inr (azs ! k), ss ! Suc k)" and
    res: "ord' = ?ord1\<lparr>o_AuthorizationIDs :=
                   take (Suc i) (o_AuthorizationIDs ?ord1) @ map az_ID azs
                     @ drop (Suc i + length rest) (o_AuthorizationIDs ?ord1)\<rparr>"
    by blast
  have tk: "take (Suc i) (?L[i := az_ID az1]) = take i ?L @ [az_ID az1]"
    using il by (simp add: take_Suc_conv_app_nth)
  have dr: "drop (Suc i + length rest) (?L[i := az_ID az1]) = drop (Suc i + length rest) ?L"
    by simp
  have res': "ord' = ord\<lparr>o_AuthorizationIDs :=
                   take i ?L @ map az_ID (az1 # azs)
                     @ drop (i + length (x # rest)) ?L\<rparr>"
    using res tk dr by simp
  have steps': "\<forall>k < length (x # rest).
        newAuthorization c
          \<lparr>az_ID = '''', az_AccountID = acc_ID acc, az_Identifier = (x # rest) ! k,
           az_Wildcard = False, az_Status = StatusPending, az_Token = '''',
           az_Challenges = [], az_ExpiresAt = o_ExpiresAt ord\<rparr> ((s # ss) ! k)
        = (Inr ((az1 # azs) ! k), (s # ss) ! Suc k)"
  proof (intro allI impI)
    fix k assume k: "k < length (x # rest)"
    show "newAuthorization c
          \<lparr>az_ID = '''', az_AccountID = acc_ID acc, az_Identifier = (x # rest) ! k,
           az_Wildcard = False, az_Status = StatusPending, az_Token = '''',
           az_Challenges = [], az_ExpiresAt = o_ExpiresAt ord\<rparr> ((s # ss) ! k)
        = (Inr ((az1 # azs) ! k), (s # ss) ! Suc k)"
    proof (cases k)
      case 0
      then show ?thesis using mk s0 by simp
    next
      case (Suc j)
      with k have "j < length rest" by simp
      with steps Suc show ?thesis by simp
    qed
  qed
  have "length (az1 # azs) = length (x # rest) \<and>
     length (s # ss) = Suc (length (x # rest)) \<and>
     (s # ss) ! 0 = s \<and> (s # ss) ! length (x # rest) = s'"
    using la ls sn by simp
  with steps' res' show ?case
    by (intro exI [of _ "az1 # azs"] exI [of _ "s # ss"]) blast
qed

text \<open>What a successful \<^verbatim>\<open>NewOrder\<close> did, step by step.\<close>

lemma NewOrder_success:
  assumes acc: "accountFromContext r = Inr acc"
    and prov: "provisionerFromContext r = Inr prov"
    and payload: "payloadFromContext r = Inr payload"
    and unm: "Unmarshal_nor c payload = Inr nor"
    and run: "NewOrder c r s = (render_JSONStatus loc body code, s')"
    and ord0: "ord0 =
          \<lparr>o_ID = '''', o_AccountID = acc_ID acc, o_ProvisionerID = GetID prov,
           o_Status = StatusPending, o_Identifiers = nor_Identifiers nor,
           o_ExpiresAt = Add (clock_Now r) defaultOrderExpiry,
           o_AuthorizationIDs = replicate (length (nor_Identifiers nor)) '''',
           o_NotBefore = nor_NotBefore nor, o_NotAfter = nor_NotAfter nor\<rparr>"
  shows "\<exists>ord1 s1 i ord4.
     NewOrderRequest_Validate c nor = None \<and>
     NewOrder_range c acc ord0 (nor_Identifiers nor) 0 s = (Inr ord1, s1) \<and>
     ord4 =
       (let ord2 = (if IsZero (o_NotBefore ord1) then ord1\<lparr>o_NotBefore := clock_Now r\<rparr>
                    else ord1);
            ord3 = (if IsZero (o_NotAfter ord2)
                    then ord2\<lparr>o_NotAfter :=
                              Add (o_NotBefore ord2) (DefaultTLSCertDuration prov)\<rparr>
                    else ord2)
        in (if IsZero (nor_NotBefore nor)
            then ord3\<lparr>o_NotBefore := Add (o_NotBefore ord3) (- defaultOrderBackdate)\<rparr>
            else ord3)) \<and>
     CreateOrder c ord4 s1 = (Inr i, s') \<and>
     body = LinkOrder c (ord4\<lparr>o_ID := i\<rparr>) \<and> code = 201 \<and> loc = GetLink c (o_ID body)"
proof -
  from run have v: "NewOrderRequest_Validate c nor = None"
    by (cases "NewOrderRequest_Validate c nor") (simp_all add: NewOrder_def acc prov payload unm)
  obtain res s1 where rng: "NewOrder_range c acc ord0 (nor_Identifiers nor) 0 s = (res, s1)"
    by (cases "NewOrder_range c acc ord0 (nor_Identifiers nor) 0 s") blast
  have ids0: "o_Identifiers ord0 = nor_Identifiers nor" by (simp add: ord0)
  from run have res: "\<exists>ord1. res = Inr ord1"
    unfolding NewOrder_def Let_def
    by (cases res) (simp_all add: acc prov payload unm v rng [unfolded ord0] split del: if_split)
  then obtain ord1 where r1: "res = Inr ord1" ..
  define ord4 where "ord4 =
       (let ord2 = (if IsZero (o_NotBefore ord1) then ord1\<lparr>o_NotBefore := clock_Now r\<rparr>
                    else ord1);
            ord3 = (if IsZero (o_NotAfter ord2)
                    then ord2\<lparr>o_NotAfter :=
                              Add (o_NotBefore ord2) (DefaultTLSCertDuration prov)\<rparr>
                    else ord2)
        in (if IsZero (nor_NotBefore nor)
            then ord3\<lparr>o_NotBefore := Add (o_NotBefore ord3) (- defaultOrderBackdate)\<rparr>
            else ord3))"
  from run have run4: "(case CreateOrder c ord4 s1 of
                   (Inl err, s2) \<Rightarrow>
                     (render_Error (WrapErrorISE err ''error creating order''), s2)
                 | (Inr i, s2) \<Rightarrow>
                     (render_JSONStatus (GetLink c (o_ID (LinkOrder c (ord4\<lparr>o_ID := i\<rparr>))))
                        (LinkOrder c (ord4\<lparr>o_ID := i\<rparr>)) 201, s2))
      = (render_JSONStatus loc body code, s')"
    unfolding NewOrder_def ord4_def Let_def
    by (simp add: acc prov payload unm v rng [unfolded ord0 r1] split del: if_split)
  then have "\<exists>i. CreateOrder c ord4 s1 = (Inr i, s') \<and>
     body = LinkOrder c (ord4\<lparr>o_ID := i\<rparr>) \<and> code = 201 \<and> loc = GetLink c (o_ID body)"
    by (auto split: prod.splits sum.splits)
  with v rng r1 ord4_def show ?thesis by blast
qed

subsection \<open>Collaborators that never fail\<close>

text \<open>
  When the random source and the create operations of storage answer without an error in
  every state, so do \<^verbatim>\<open>newAuthorization\<close> and the loop of \<^verbatim>\<open>NewOrder\<close>, and
  \<^verbatim>\<open>NewOrder\<close> answers a valid request with an order.
\<close>

lemma Validate_range_None_iff:
  "Validate_range c ids = None \<longleftrightarrow>
     (\<forall>i \<in> set ids. (id_Type i = DNS \<or> id_Type i = IP) \<and>
        (id_Type i = IP \<longrightarrow> ParseIP c (id_Value i) \<noteq> None))"
  by (induction ids) auto

lemma NewOrderRequest_Validate_None_iff:
  "NewOrderRequest_Validate c nor = None \<longleftrightarrow>
     nor_Identifiers nor \<noteq> [] \<and>
     (\<forall>i \<in> set (nor_Identifiers nor). (id_Type i = DNS \<or> id_Type i = IP) \<and>
        (id_Type i = IP \<longrightarrow> ParseIP c (id_Value i) \<noteq> None))"
  by (simp add: NewOrderRequest_Validate_def Validate_range_None_iff)

lemma newAuthorization_range_total:
  assumes cch: "\<forall>ch s. \<exists>i s1. CreateChallenge c ch s = (Inr i, s1)"
  shows "\<exists>chs' s'. newAuthorization_range c az typs chs s = (Inr chs', s')"
proof (induction typs arbitrary: chs s)
  case Nil
  show ?case by simp
next
  case (Cons t typs)
  let ?ch = "\<lparr>ch_ID = '''', ch_AccountID = az_AccountID az, ch_Type = t,
              ch_Value = id_Value (az_Identifier az), ch_Token = az_Token az,
              ch_Status = StatusPending\<rparr>"
  from cch obtain i s1 where mk: "CreateChallenge c ?ch s = (Inr i, s1)" by blast
  from Cons.IH [of "chs @ [?ch\<lparr>ch_ID := i\<rparr>]" s1] obtain chs' s' where
    "newAuthorization_range c az typs (chs @ [?ch\<lparr>ch_ID := i\<rparr>]) s1 = (Inr chs', s')"
    by blast
  then have "newAuthorization_range c az (t # typs) chs s = (Inr chs', s')"
    by (simp add: mk)
  then show ?case by blast
qed

lemma newAuthorization_total:
  assumes rnd: "\<forall>s. \<exists>t s1. Alphanumeric c 32 s = (Inr t, s1)"
    and cch: "\<forall>ch s. \<exists>i s1. CreateChallenge c ch s = (Inr i, s1)"
    and caz: "\<forall>az s. \<exists>i s1. CreateAuthorization c az s = (Inr i, s1)"
  shows "\<exists>az' s'. newAuthorization c az0 s = (Inr az', s')"
proof -
  define az where
    "az = (if HasPrefix (id_Value (az_Identifier az0)) ''*.'' then
                  az0\<lparr>az_Wildcard := True,
                      az_Identifier :=
                        \<lparr>id_Type = id_Type (az_Identifier az0),
                         id_Value = TrimPrefix (id_Value (az_Identifier az0)) ''*.''\<rparr>\<rparr>
                else az0)"
  from rnd obtain token s1 where r: "Alphanumeric c 32 s = (Inr token, s1)" by blast
  from newAuthorization_range_total [OF cch] obtain chs s2 where
    g: "newAuthorization_range c (az\<lparr>az_Token := token\<rparr>) (challengeTypes az) [] s1
          = (Inr chs, s2)"
    by blast
  from caz obtain i s3 where
    m: "CreateAuthorization c (az\<lparr>az_Token := token, az_Challenges := chs\<rparr>) s2 = (Inr i, s3)"
    by blast
  have "newAuthorization c az0 s
      = (Inr (az\<lparr>az_Token := token, az_Challenges := chs, az_ID := i\<rparr>), s3)"
    unfolding newAuthorization_def Let_def az_def [symmetric]
    by (simp add: r g m)
  then show ?thesis by blast
qed

lemma NewOrder_range_total:
  assumes rnd: "\<forall>s. \<exists>t s1. Alphanumeric c 32 s = (Inr t, s1)"
    and cch: "\<forall>ch s. \<exists>i s1. CreateChallenge c ch s = (Inr i, s1)"
    and caz: "\<forall>az s. \<exists>i s1. CreateAuthorization c az s = (Inr i, s1)"
  shows "\<exists>ord' s'. NewOrder_range c acc ord ids i s = (Inr ord', s')"
proof (induction ids arbitrary: ord i s)
  case Nil
  show ?case by simp
next
  case (Cons x rest)
  let ?az = "\<lparr>az_ID = '''', az_AccountID = acc_ID acc, az_Identifier = x,
           az_Wildcard = False, az_Status = StatusPending, az_Token = '''',
           az_Challenges = [], az_ExpiresAt = o_ExpiresAt ord\<rparr>"
  from newAuthorization_total [OF rnd cch caz] obtain az1 s1 where
    mk: "newAuthorization c ?az s = (Inr az1, s1)" by blast
  from Cons.IH [of "ord\<lparr>o_AuthorizationIDs := (o_AuthorizationIDs ord)[i := az_ID az1]\<rparr>"
      "Suc i" s1]
  obtain ord' s' where
    "NewOrder_range c acc (ord\<lparr>o_AuthorizationIDs := (o_AuthorizationIDs ord)[i := az_ID az1]\<rparr>)
       rest (Suc i) s1 = (Inr ord', s')"
    by blast
  then have "NewOrder_range c acc ord (x # rest) i s = (Inr ord', s')"
    by (simp add: mk)
  then show ?case by blast
qed

lemma NewOrder_total:
  assumes acc: "accountFromContext r = Inr acc"
    and prov: "provisionerFromContext r = Inr prov"
    and payload: "payloadFromContext r = Inr payload"
    and unm: "Unmarshal_nor c payload = Inr nor"
    and valid: "NewOrderRequest_Validate c nor = None"
    and rnd: "\<forall>s. \<exists>t s1. Alphanumeric c 32 s = (Inr t, s1)"
    and cch: "\<forall>ch s. \<exists>i s1. CreateChallenge c ch s = (Inr i, s1)"
    and caz: "\<forall>az s. \<exists>i s1. CreateAuthorization c az s = (Inr i, s1)"
    and cor: "\<forall>ord s. \<exists>i s1. CreateOrder c ord s = (Inr i, s1)"
  shows "\<exists>loc body s'. NewOrder c r s = (render_JSONStatus loc body 201, s')"
proof -
  define ord0 where "ord0 =
          \<lparr>o_ID = '''', o_AccountID = acc_ID acc, o_ProvisionerID = GetID prov,
           o_Status = StatusPending, o_Identifiers = nor_Identifiers nor,
           o_ExpiresAt = Add (clock_Now r) defaultOrderExpiry,
           o_AuthorizationIDs = replicate (length (nor_Identifiers nor)) '''',
           o_NotBefore = nor_NotBefore nor, o_NotAfter = nor_NotAfter nor\<rparr>"
  from NewOrder_range_total [OF rnd cch caz] obtain ord1 s1 where
    rng: "NewOrder_range c acc ord0 (nor_Identifiers nor) 0 s = (Inr ord1, s1)"
    by blast
  define ord4 where "ord4 =
       (let ord2 = (if IsZero (o_NotBefore ord1) then ord1\<lparr>o_NotBefore := clock_Now r\<rparr>
                    else ord1);
            ord3 = (if IsZero (o_NotAfter ord2)
                    then ord2\<lparr>o_NotAfter :=
                              Add (o_NotBefore ord2) (DefaultTLSCertDuration prov)\<rparr>
                    else ord2)
        in (if IsZero (nor_NotBefore nor)
            then ord3\<lparr>o_NotBefore := Add (o_NotBefore ord3) (- defaultOrderBackdate)\<rparr>
            else ord3))"
  from cor obtain i s2 where mk: "CreateOrder c ord4 s1 = (Inr i, s2)" by blast
  have "NewOrder c r s
      = (render_JSONStatus (GetLink c (o_ID (LinkOrder c (ord4\<lparr>o_ID := i\<rparr>))))
           (LinkOrder c (ord4\<lparr>o_ID := i\<rparr>)) 201, s2)"
    unfolding NewOrder_def ord4_def Let_def
    by (simp add: acc prov payload unm valid rng [unfolded ord0_def]
        mk [unfolded ord4_def Let_def] split del: if_split)
  then show ?thesis by blast
qed

text \<open>What the order is that a successful \<^verbatim>\<open>NewOrder\<close> answers with.\<close>

lemma NewOrder_answer:
  assumes acc: "accountFromContext r = Inr acc"
    and prov: "provisionerFromContext r = Inr prov"
    and payload: "payloadFromContext r = Inr payload"
    and unm: "Unmarshal_nor c payload = Inr nor"
    and run: "NewOrder c r s = (render_JSONStatus loc body code, s')"
  shows "\<exists>ord azs ss.
     body = LinkOrder c ord \<and> code = 201 \<and>
     o_Status ord = StatusPending \<and> o_ExpiresAt ord = clock_Now r + 24 * Hour \<and>
     o_Identifiers ord = nor_Identifiers nor \<and>
     o_AuthorizationIDs ord = map az_ID azs \<and>
     length (o_AuthorizationIDs ord) = length (nor_Identifiers nor) \<and>
     length azs = length (nor_Identifiers nor) \<and>
     length ss = Suc (length (nor_Identifiers nor)) \<and> ss ! 0 = s \<and>
     (\<forall>k < length (nor_Identifiers nor).
        newAuthorization c
          \<lparr>az_ID = '''', az_AccountID = acc_ID acc, az_Identifier = nor_Identifiers nor ! k,
           az_Wildcard = False, az_Status = StatusPending, az_Token = '''',
           az_Challenges = [], az_ExpiresAt = o_ExpiresAt ord\<rparr> (ss ! k)
          = (Inr (azs ! k), ss ! Suc k) \<and>
        az_ExpiresAt (azs ! k) = o_ExpiresAt ord \<and>
        o_AuthorizationIDs ord ! k = az_ID (azs ! k)) \<and>
     CreateOrder c (ord\<lparr>o_ID := ''''\<rparr>) (ss ! length (nor_Identifiers nor))
       = (Inr (o_ID ord), s')"
proof -
  let ?n = "length (nor_Identifiers nor)"
  define ord0 where "ord0 =
          \<lparr>o_ID = '''', o_AccountID = acc_ID acc, o_ProvisionerID = GetID prov,
           o_Status = StatusPending, o_Identifiers = nor_Identifiers nor,
           o_ExpiresAt = Add (clock_Now r) defaultOrderExpiry,
           o_AuthorizationIDs = replicate (length (nor_Identifiers nor)) '''',
           o_NotBefore = nor_NotBefore nor, o_NotAfter = nor_NotAfter nor\<rparr>"
  from NewOrder_success [OF acc prov payload unm run ord0_def]
  obtain ord1 s1 i ord4 where
    rng: "NewOrder_range c acc ord0 (nor_Identifiers nor) 0 s = (Inr ord1, s1)" and
    ord4: "ord4 =
       (let ord2 = (if IsZero (o_NotBefore ord1) then ord1\<lparr>o_NotBefore := clock_Now r\<rparr>
                    else ord1);
            ord3 = (if IsZero (o_NotAfter ord2)
                    then ord2\<lparr>o_NotAfter :=
                              Add (o_NotBefore ord2) (DefaultTLSCertDuration prov)\<rparr>
                    else ord2)
        in (if IsZero (nor_NotBefore nor)
            then ord3\<lparr>o_NotBefore := Add (o_NotBefore ord3) (- defaultOrderBackdate)\<rparr>
            else ord3))" and
    mk: "CreateOrder c ord4 s1 = (Inr i, s')" and
    body: "body = LinkOrder c (ord4\<lparr>o_ID := i\<rparr>)" and code: "code = 201"
    by blast
  have exp0: "o_ExpiresAt ord0 = clock_Now r + 24 * Hour"
    by (simp add: ord0_def Add_def defaultOrderExpiry_def)
  have bound: "0 + ?n \<le> length (o_AuthorizationIDs ord0)"
    by (simp add: ord0_def)
  from NewOrder_range_result [OF rng bound] obtain azs ss where
    la: "length azs = ?n" and ls: "length ss = Suc ?n" and s0: "ss ! 0 = s" and
    sn: "ss ! ?n = s1" and
    steps: "\<forall>k < ?n.
        newAuthorization c
          \<lparr>az_ID = '''', az_AccountID = acc_ID acc, az_Identifier = nor_Identifiers nor ! k,
           az_Wildcard = False, az_Status = StatusPending, az_Token = '''',
           az_Challenges = [], az_ExpiresAt = o_ExpiresAt ord0\<rparr> (ss ! k)
        = (Inr (azs ! k), ss ! Suc k)" and
    ord1: "ord1 = ord0\<lparr>o_AuthorizationIDs :=
                   take 0 (o_AuthorizationIDs ord0) @ map az_ID azs
                     @ drop (0 + ?n) (o_AuthorizationIDs ord0)\<rparr>"
    by blast
  have ord1': "ord1 = ord0\<lparr>o_AuthorizationIDs := map az_ID azs\<rparr>"
    using ord1 by (simp add: ord0_def)
  have f1: "o_ID ord1 = ''''" "o_Status ord1 = StatusPending"
    "o_ExpiresAt ord1 = clock_Now r + 24 * Hour" "o_Identifiers ord1 = nor_Identifiers nor"
    "o_AuthorizationIDs ord1 = map az_ID azs"
    using exp0 by (simp_all add: ord1') (simp_all add: ord0_def)
  have f4: "o_ID ord4 = ''''" "o_Status ord4 = StatusPending"
    "o_ExpiresAt ord4 = clock_Now r + 24 * Hour" "o_Identifiers ord4 = nor_Identifiers nor"
    "o_AuthorizationIDs ord4 = map az_ID azs"
    using f1 by (simp_all add: ord4 Let_def)
  let ?ord = "ord4\<lparr>o_ID := i\<rparr>"
  have same: "?ord\<lparr>o_ID := ''''\<rparr> = ord4"
    using f4(1) by (cases ord4) simp
  have each: "\<forall>k < ?n.
        newAuthorization c
          \<lparr>az_ID = '''', az_AccountID = acc_ID acc, az_Identifier = nor_Identifiers nor ! k,
           az_Wildcard = False, az_Status = StatusPending, az_Token = '''',
           az_Challenges = [], az_ExpiresAt = o_ExpiresAt ?ord\<rparr> (ss ! k)
          = (Inr (azs ! k), ss ! Suc k) \<and>
        az_ExpiresAt (azs ! k) = o_ExpiresAt ?ord \<and>
        o_AuthorizationIDs ?ord ! k = az_ID (azs ! k)"
  proof (intro allI impI)
    fix k assume k: "k < ?n"
    have e: "o_ExpiresAt ?ord = o_ExpiresAt ord0" using f4(3) exp0 by simp
    from steps k have st: "newAuthorization c
          \<lparr>az_ID = '''', az_AccountID = acc_ID acc, az_Identifier = nor_Identifiers nor ! k,
           az_Wildcard = False, az_Status = StatusPending, az_Token = '''',
           az_Challenges = [], az_ExpiresAt = o_ExpiresAt ?ord\<rparr> (ss ! k)
          = (Inr (azs ! k), ss ! Suc k)"
      unfolding e by blast
    from newAuthorization_keeps [OF st]
    have x: "az_ExpiresAt (azs ! k) = o_ExpiresAt ?ord" by simp
    have y: "o_AuthorizationIDs ?ord ! k = az_ID (azs ! k)"
      using k la by (simp add: f4(5))
    from st x y show "newAuthorization c
          \<lparr>az_ID = '''', az_AccountID = acc_ID acc, az_Identifier = nor_Identifiers nor ! k,
           az_Wildcard = False, az_Status = StatusPending, az_Token = '''',
           az_Challenges = [], az_ExpiresAt = o_ExpiresAt ?ord\<rparr> (ss ! k)
          = (Inr (azs ! k), ss ! Suc k) \<and>
        az_ExpiresAt (azs ! k) = o_ExpiresAt ?ord \<and>
        o_AuthorizationIDs ?ord ! k = az_ID (azs ! k)"
      by blast
  qed
  have fields: "o_Status ?ord = StatusPending \<and> o_ExpiresAt ?ord = clock_Now r + 24 * Hour \<and>
     o_Identifiers ?ord = nor_Identifiers nor \<and> o_AuthorizationIDs ?ord = map az_ID azs \<and>
     length (o_AuthorizationIDs ?ord) = ?n"
    using f4 la by simp
  have store: "CreateOrder c (?ord\<lparr>o_ID := ''''\<rparr>) (ss ! ?n) = (Inr (o_ID ?ord), s')"
    unfolding same sn using mk by simp
  from body code fields la ls s0 each store show ?thesis
    by (intro exI [of _ ?ord] exI [of _ azs] exI [of _ ss]) blast
qed

subsection \<open>The example runs, evaluated\<close>

lemmas example_simps =
  example_collaborators_def example_az_def example_nor_def example_store_def
  mem_Alphanumeric_def mem_CreateChallenge_def mem_CreateAuthorization_def
  mem_CreateOrder_def mem_GetOrder_def HasPrefix_def TrimPrefix_def challengeTypes_def
  DNS_def IP_def Let_def

lemma example_wildcard_run_value:
  "fst example_wildcard_run
   = Inr \<lparr>az_ID = ''id2'', az_AccountID = ''acc1'',
          az_Identifier = \<lparr>id_Type = DNS, id_Value = ''example.com''\<rparr>,
          az_Wildcard = True, az_Status = StatusPending,
          az_Token = ''Zk3v9QmT1xLp7Rw2Yb8NcH5dGs4JfU6a'',
          az_Challenges =
            [\<lparr>ch_ID = ''id1'', ch_AccountID = ''acc1'', ch_Type = DNS01,
              ch_Value = ''example.com'', ch_Token = ''Zk3v9QmT1xLp7Rw2Yb8NcH5dGs4JfU6a'',
              ch_Status = StatusPending\<rparr>],
          az_ExpiresAt = 1024 * Hour\<rparr>"
  by (simp add: example_wildcard_run_def newAuthorization_def example_simps)

lemma example_plain_run_value:
  "fst example_plain_run
   = Inr \<lparr>az_ID = ''id4'', az_AccountID = ''acc1'',
          az_Identifier = \<lparr>id_Type = DNS, id_Value = ''example.com''\<rparr>,
          az_Wildcard = False, az_Status = StatusPending,
          az_Token = ''Zk3v9QmT1xLp7Rw2Yb8NcH5dGs4JfU6a'',
          az_Challenges =
            [\<lparr>ch_ID = ''id1'', ch_AccountID = ''acc1'', ch_Type = DNS01,
              ch_Value = ''example.com'', ch_Token = ''Zk3v9QmT1xLp7Rw2Yb8NcH5dGs4JfU6a'',
              ch_Status = StatusPending\<rparr>,
             \<lparr>ch_ID = ''id2'', ch_AccountID = ''acc1'', ch_Type = HTTP01,
              ch_Value = ''example.com'', ch_Token = ''Zk3v9QmT1xLp7Rw2Yb8NcH5dGs4JfU6a'',
              ch_Status = StatusPending\<rparr>,
             \<lparr>ch_ID = ''id3'', ch_AccountID = ''acc1'', ch_Type = TLSALPN01,
              ch_Value = ''example.com'', ch_Token = ''Zk3v9QmT1xLp7Rw2Yb8NcH5dGs4JfU6a'',
              ch_Status = StatusPending\<rparr>],
          az_ExpiresAt = 1024 * Hour\<rparr>"
  by (simp add: example_plain_run_def newAuthorization_def example_simps)

lemma example_wildcard_run_ok:
  "newAuthorization (example_collaborators (example_nor []))
     (example_az DNS ''*.example.com'') example_store
   = (Inr (projr (fst example_wildcard_run)), snd example_wildcard_run)"
proof -
  have "example_wildcard_run = (Inr (projr (fst example_wildcard_run)), snd example_wildcard_run)"
    by (simp add: example_wildcard_run_value prod_eq_iff)
  then show ?thesis by (simp only: example_wildcard_run_def [symmetric])
qed

lemma example_plain_run_ok:
  "newAuthorization (example_collaborators (example_nor []))
     (example_az DNS ''example.com'') example_store
   = (Inr (projr (fst example_plain_run)), snd example_plain_run)"
proof -
  have "example_plain_run = (Inr (projr (fst example_plain_run)), snd example_plain_run)"
    by (simp add: example_plain_run_value prod_eq_iff)
  then show ?thesis by (simp only: example_plain_run_def [symmetric])
qed


lemma example_fetch:
  "db_GetOrder (example_collaborators (example_nor [])) (ordID (example_request_by a p payload))
     example_store_ord = (Inr example_order, example_store_ord)"
  by (simp add: example_collaborators_def example_request_by_def mem_GetOrder_def
      example_store_ord_def example_order_def)

lemma example_request_by_simps:
  "accountFromContext (example_request_by a p payload) = Inr \<lparr>acc_ID = a\<rparr>"
  "provisionerFromContext (example_request_by a p payload)
     = Inr \<lparr>GetID = p, DefaultTLSCertDuration = 24 * Hour\<rparr>"
  "payloadFromContext (example_request_by a p payload) = Inr payload"
  by (simp_all add: example_request_by_def)

lemma example_Validate_csr:
  "FinalizeRequest_Validate (example_collaborators (example_nor []))
     \<lparr>fr_CSR = ''csr'', fr_csr = None\<rparr> = Inr \<lparr>fr_CSR = ''csr'', fr_csr = Some ''csr''\<rparr>"
  by (simp add: FinalizeRequest_Validate_def example_collaborators_def HasPrefix_def)

lemma example_Unmarshal_fr:
  "payload \<noteq> '''' \<Longrightarrow>
     Unmarshal_fr (example_collaborators (example_nor [])) payload = Inr payload"
  by (simp add: example_collaborators_def)

lemma example_new_order_run_value:
  "fst example_new_order_run
     = render_JSONStatus ''/acme/order/id3'' example_created_order 201"
  by (simp add: example_new_order_run_def example_created_order_def NewOrder_def
      NewOrderRequest_Validate_def newAuthorization_def example_simps example_request_def
      IsZero_def Add_def defaultOrderExpiry_def defaultOrderBackdate_def Hour_def Minute_def)

lemma example_new_order_run_ok:
  "NewOrder (example_collaborators (example_nor [\<lparr>id_Type = DNS, id_Value = ''*.example.com''\<rparr>]))
     example_request example_store
   = (render_JSONStatus ''/acme/order/id3'' example_created_order 201,
      snd example_new_order_run)"
proof -
  have "example_new_order_run
      = (render_JSONStatus ''/acme/order/id3'' example_created_order 201,
         snd example_new_order_run)"
    by (simp add: example_new_order_run_value prod_eq_iff)
  then show ?thesis by (simp only: example_new_order_run_def [symmetric])
qed

lemma example_request_simps:
  "accountFromContext example_request = Inr \<lparr>acc_ID = ''acc1''\<rparr>"
  "provisionerFromContext example_request
     = Inr \<lparr>GetID = ''prov1'', DefaultTLSCertDuration = 24 * Hour\<rparr>"
  "payloadFromContext example_request = Inr ''new-order''"
  by (simp_all add: example_request_def)

lemma example_Unmarshal_nor:
  "Unmarshal_nor (example_collaborators nor) ''new-order'' = Inr nor"
  by (simp add: example_collaborators_def)

text \<open>The numbered storage never fails, and the two identifiers are valid.\<close>

lemma numbered_never_fails:
  "\<forall>s. \<exists>t s1. Alphanumeric (numbered_collaborators nor) 32 s = (Inr t, s1)"
  "\<forall>ch s. \<exists>i s1. CreateChallenge (numbered_collaborators nor) ch s = (Inr i, s1)"
  "\<forall>az s. \<exists>i s1. CreateAuthorization (numbered_collaborators nor) az s = (Inr i, s1)"
  "\<forall>ord s. \<exists>i s1. CreateOrder (numbered_collaborators nor) ord s = (Inr i, s1)"
  by (simp_all add: numbered_collaborators_def ns_Alphanumeric_def ns_CreateChallenge_def
      ns_CreateAuthorization_def ns_CreateOrder_def)

lemma numbered_Unmarshal_nor:
  "Unmarshal_nor (numbered_collaborators nor) ''new-order'' = Inr nor"
  by (simp add: numbered_collaborators_def example_collaborators_def)

lemma example_two_valid:
  "nor_Identifiers (example_nor example_two) \<noteq> [] \<and>
   (\<forall>i \<in> set (nor_Identifiers (example_nor example_two)).
      (id_Type i = DNS \<or> id_Type i = IP) \<and>
      (id_Type i = IP \<longrightarrow>
         ParseIP (numbered_collaborators (example_nor example_two)) (id_Value i) \<noteq> None))"
  by (simp add: example_nor_def example_two_def numbered_collaborators_def
      example_collaborators_def IP_neq_DNS [symmetric])

lemma numbered_run_value:
  "(case numbered_run of
      (resp, s') \<Rightarrow>
        (map_option o_AuthorizationIDs (response_order resp),
         map az_ID (ns_authorizations s'),
         map az_Identifier (ns_authorizations s'),
         map (\<lambda>az. map ch_Type (az_Challenges az)) (ns_authorizations s')))
   = (Some [''id2'', ''id5''], [''id2'', ''id5''],
      [\<lparr>id_Type = DNS, id_Value = ''example.com''\<rparr>,
       \<lparr>id_Type = IP, id_Value = ''192.0.2.1''\<rparr>],
      [[DNS01], [HTTP01, TLSALPN01]])"
  by code_simp

subsection \<open>The challenge types of an authorization\<close>

text \<open>
  C3. \<^verbatim>\<open>challengeTypes\<close> depends on the identifier type and on the wildcard flag only:
  an IP identifier gets HTTP-01 and TLS-ALPN-01, in this order; a DNS identifier without the
  wildcard flag gets DNS-01, HTTP-01 and TLS-ALPN-01; a DNS identifier with the flag gets
  DNS-01 alone; every other identifier type gets the empty list. Two authorizations that
  agree on the type and on the flag get the same list.
\<close>

theorem challengeTypes_table:
  "(id_Type (az_Identifier az) = IP \<longrightarrow> challengeTypes az = [HTTP01, TLSALPN01]) \<and>
   (id_Type (az_Identifier az) = DNS \<and> \<not> az_Wildcard az \<longrightarrow>
      challengeTypes az = [DNS01, HTTP01, TLSALPN01]) \<and>
   (id_Type (az_Identifier az) = DNS \<and> az_Wildcard az \<longrightarrow> challengeTypes az = [DNS01]) \<and>
   (id_Type (az_Identifier az) \<noteq> IP \<and> id_Type (az_Identifier az) \<noteq> DNS \<longrightarrow>
      challengeTypes az = []) \<and>
   (\<forall>az'. id_Type (az_Identifier az') = id_Type (az_Identifier az) \<and>
          az_Wildcard az' = az_Wildcard az \<longrightarrow> challengeTypes az' = challengeTypes az)"
proof -
  have dns_ip: "DNS \<noteq> IP" using IP_neq_DNS by simp
  have a: "id_Type (az_Identifier az) = IP \<longrightarrow> challengeTypes az = [HTTP01, TLSALPN01]"
    by (simp add: challengeTypes_def)
  have b: "id_Type (az_Identifier az) = DNS \<and> \<not> az_Wildcard az \<longrightarrow>
      challengeTypes az = [DNS01, HTTP01, TLSALPN01]"
    by (simp add: challengeTypes_def dns_ip)
  have c: "id_Type (az_Identifier az) = DNS \<and> az_Wildcard az \<longrightarrow> challengeTypes az = [DNS01]"
    by (simp add: challengeTypes_def dns_ip)
  have d: "id_Type (az_Identifier az) \<noteq> IP \<and> id_Type (az_Identifier az) \<noteq> DNS \<longrightarrow>
      challengeTypes az = []"
    by (simp add: challengeTypes_def)
  have e: "\<forall>az'. id_Type (az_Identifier az') = id_Type (az_Identifier az) \<and>
          az_Wildcard az' = az_Wildcard az \<longrightarrow> challengeTypes az' = challengeTypes az"
  proof (intro allI impI)
    fix az' :: Authorization
    assume h: "id_Type (az_Identifier az') = id_Type (az_Identifier az) \<and>
          az_Wildcard az' = az_Wildcard az"
    from h have t: "id_Type (az_Identifier az') = id_Type (az_Identifier az)" by (rule conjunct1)
    from h have w: "az_Wildcard az' = az_Wildcard az" by (rule conjunct2)
    show "challengeTypes az' = challengeTypes az"
      unfolding challengeTypes_def t w by (rule refl)
  qed
  from a b c d e show ?thesis by blast
qed


theorem challengeTypes_table_witness:
  "challengeTypes (example_az IP ''192.0.2.1'') = [HTTP01, TLSALPN01] \<and>
   challengeTypes (example_az DNS ''example.com'') = [DNS01, HTTP01, TLSALPN01] \<and>
   challengeTypes ((example_az DNS ''example.com'')\<lparr>az_Wildcard := True\<rparr>) = [DNS01] \<and>
   challengeTypes (example_az ''email'' ''a@example.com'') = []"
proof -
  have 1: "challengeTypes (example_az IP ''192.0.2.1'') = [HTTP01, TLSALPN01]"
    using challengeTypes_table [of "example_az IP ''192.0.2.1''"]
    by (simp add: example_az_def)
  have 2: "challengeTypes (example_az DNS ''example.com'') = [DNS01, HTTP01, TLSALPN01]"
    using challengeTypes_table [of "example_az DNS ''example.com''"]
    by (simp add: example_az_def)
  have 3: "challengeTypes ((example_az DNS ''example.com'')\<lparr>az_Wildcard := True\<rparr>) = [DNS01]"
    using challengeTypes_table [of "(example_az DNS ''example.com'')\<lparr>az_Wildcard := True\<rparr>"]
    by (simp add: example_az_def)
  have 4: "challengeTypes (example_az ''email'' ''a@example.com'') = []"
    using challengeTypes_table [of "example_az ''email'' ''a@example.com''"]
    by (simp add: example_az_def IP_def DNS_def)
  from 1 2 3 4 show ?thesis by blast
qed

subsection \<open>Wildcard identifiers\<close>

text \<open>
  C2. Let \<^verbatim>\<open>newAuthorization\<close> succeed on an authorization \<open>az\<close> and leave \<open>az'\<close>.
  If the identifier value of \<open>az\<close> is \<open>*.\<close> followed by \<open>rest\<close>, then \<open>az'\<close> has the
  wildcard flag set and the identifier value \<open>rest\<close> (the type is kept), and for a DNS
  identifier its challenges are of the types DNS-01 exactly. If the value does not begin
  with \<open>*.\<close>, the wildcard flag and the identifier of \<open>az'\<close> are those of \<open>az\<close>: the flag
  stays \<open>False\<close> for the authorizations \<^verbatim>\<open>NewOrder\<close> builds, and the value is unchanged.
  In both cases the record handed to \<open>CreateAuthorization\<close> is \<open>az'\<close> before storage gave it
  its ID, so the flag and the stripped value are set before the authorization is stored.
\<close>

theorem newAuthorization_wildcard:
  assumes run: "newAuthorization c az s = (Inr az', s')"
  shows "(\<forall>rest. id_Value (az_Identifier az) = ''*.'' @ rest \<longrightarrow>
            az_Wildcard az' \<and>
            az_Identifier az' = \<lparr>id_Type = id_Type (az_Identifier az), id_Value = rest\<rparr> \<and>
            (id_Type (az_Identifier az) = DNS \<longrightarrow>
               map ch_Type (az_Challenges az') = [DNS01])) \<and>
         ((\<forall>rest. id_Value (az_Identifier az) \<noteq> ''*.'' @ rest) \<longrightarrow>
            az_Wildcard az' = az_Wildcard az \<and> az_Identifier az' = az_Identifier az) \<and>
         (\<exists>s2. CreateAuthorization c (az'\<lparr>az_ID := az_ID az\<rparr>) s2 = (Inr (az_ID az'), s'))"
proof -
  define az1 where
    "az1 = (if HasPrefix (id_Value (az_Identifier az)) ''*.'' then
                  az\<lparr>az_Wildcard := True,
                      az_Identifier :=
                        \<lparr>id_Type = id_Type (az_Identifier az),
                         id_Value = TrimPrefix (id_Value (az_Identifier az)) ''*.''\<rparr>\<rparr>
                else az)"
  from newAuthorization_success [OF run az1_def] obtain token s1 chs s2 i where
    rng: "newAuthorization_range c (az1\<lparr>az_Token := token\<rparr>) (challengeTypes az1) [] s1
            = (Inr chs, s2)" and
    mk: "CreateAuthorization c (az1\<lparr>az_Token := token, az_Challenges := chs\<rparr>) s2
            = (Inr i, s')" and
    az': "az' = az1\<lparr>az_Token := token, az_Challenges := chs, az_ID := i\<rparr>"
    by blast
  have types: "map ch_Type chs = challengeTypes az1"
    using newAuthorization_range_result [OF rng] by simp
  have wild: "az_Wildcard az' = az_Wildcard az1" and ident: "az_Identifier az' = az_Identifier az1"
    and chals: "az_Challenges az' = chs" and ID: "az_ID az' = i"
    by (simp_all add: az')
  have a: "\<forall>rest. id_Value (az_Identifier az) = ''*.'' @ rest \<longrightarrow>
            az_Wildcard az' \<and>
            az_Identifier az' = \<lparr>id_Type = id_Type (az_Identifier az), id_Value = rest\<rparr> \<and>
            (id_Type (az_Identifier az) = DNS \<longrightarrow>
               map ch_Type (az_Challenges az') = [DNS01])"
  proof (intro allI impI)
    fix rest
    assume v: "id_Value (az_Identifier az) = ''*.'' @ rest"
    have p: "HasPrefix (id_Value (az_Identifier az)) ''*.''"
      unfolding v by (rule HasPrefix_append)
    have t: "TrimPrefix (id_Value (az_Identifier az)) ''*.'' = rest"
      unfolding v by (rule TrimPrefix_append)
    have az1: "az1 = az\<lparr>az_Wildcard := True,
                      az_Identifier := \<lparr>id_Type = id_Type (az_Identifier az), id_Value = rest\<rparr>\<rparr>"
      by (simp add: az1_def p t)
    have w1: "az_Wildcard az1" and i1: "az_Identifier az1
        = \<lparr>id_Type = id_Type (az_Identifier az), id_Value = rest\<rparr>"
      by (simp_all add: az1)
    have "id_Type (az_Identifier az) = DNS \<longrightarrow> challengeTypes az1 = [DNS01]"
      using IP_neq_DNS by (auto simp add: challengeTypes_def w1 i1)
    then show "az_Wildcard az' \<and>
            az_Identifier az' = \<lparr>id_Type = id_Type (az_Identifier az), id_Value = rest\<rparr> \<and>
            (id_Type (az_Identifier az) = DNS \<longrightarrow>
               map ch_Type (az_Challenges az') = [DNS01])"
      by (simp add: wild ident chals types w1 i1)
  qed
  have b: "(\<forall>rest. id_Value (az_Identifier az) \<noteq> ''*.'' @ rest) \<longrightarrow>
            az_Wildcard az' = az_Wildcard az \<and> az_Identifier az' = az_Identifier az"
  proof
    assume "\<forall>rest. id_Value (az_Identifier az) \<noteq> ''*.'' @ rest"
    then have "\<not> HasPrefix (id_Value (az_Identifier az)) ''*.''"
      by (simp add: HasPrefix_wildcard_iff)
    then have "az1 = az" by (simp add: az1_def)
    then show "az_Wildcard az' = az_Wildcard az \<and> az_Identifier az' = az_Identifier az"
      by (simp add: wild ident)
  qed
  have "az_ID az1 = az_ID az" by (simp add: az1_def)
  then have "az'\<lparr>az_ID := az_ID az\<rparr> = az1\<lparr>az_Token := token, az_Challenges := chs\<rparr>"
    by (simp add: az')
  with mk ID have c: "\<exists>s2. CreateAuthorization c (az'\<lparr>az_ID := az_ID az\<rparr>) s2
      = (Inr (az_ID az'), s')"
    by auto
  from a b c show ?thesis by blast
qed

theorem newAuthorization_wildcard_witness:
  "az_Wildcard (projr (fst example_wildcard_run)) \<and>
   az_Identifier (projr (fst example_wildcard_run))
     = \<lparr>id_Type = DNS, id_Value = ''example.com''\<rparr> \<and>
   map ch_Type (az_Challenges (projr (fst example_wildcard_run))) = [DNS01] \<and>
   \<not> az_Wildcard (projr (fst example_plain_run)) \<and>
   az_Identifier (projr (fst example_plain_run))
     = \<lparr>id_Type = DNS, id_Value = ''example.com''\<rparr>"
proof -
  have w: "id_Value (az_Identifier (example_az DNS ''*.example.com'')) = ''*.'' @ ''example.com''"
    by (simp add: example_az_def)
  have t: "id_Type (az_Identifier (example_az DNS ''*.example.com'')) = DNS"
    by (simp add: example_az_def)
  have p: "\<forall>rest. id_Value (az_Identifier (example_az DNS ''example.com'')) \<noteq> ''*.'' @ rest"
    by (simp add: example_az_def)
  have pf: "\<not> az_Wildcard (example_az DNS ''example.com'')"
    and pi: "az_Identifier (example_az DNS ''example.com'')
      = \<lparr>id_Type = DNS, id_Value = ''example.com''\<rparr>"
    by (simp_all add: example_az_def)
  from newAuthorization_wildcard [OF example_wildcard_run_ok] w t
  have 1: "az_Wildcard (projr (fst example_wildcard_run)) \<and>
   az_Identifier (projr (fst example_wildcard_run))
     = \<lparr>id_Type = DNS, id_Value = ''example.com''\<rparr> \<and>
   map ch_Type (az_Challenges (projr (fst example_wildcard_run))) = [DNS01]"
    by simp
  from newAuthorization_wildcard [OF example_plain_run_ok] p pf pi
  have 2: "\<not> az_Wildcard (projr (fst example_plain_run)) \<and>
   az_Identifier (projr (fst example_plain_run))
     = \<lparr>id_Type = DNS, id_Value = ''example.com''\<rparr>"
    by simp
  from 1 2 show ?thesis by blast
qed

subsection \<open>The token of an authorization\<close>



subsection \<open>Ownership of an order\<close>

text \<open>
  C1. Let the account and the provisioner be authenticated, and let the order that storage
  returns for the request belong to another account or to another provisioner. Then
  \<^verbatim>\<open>GetOrder\<close> renders an error of the unauthorized type, and so does \<^verbatim>\<open>FinalizeOrder\<close>
  whenever it gets as far as fetching the order (its payload unmarshals and its CSR is
  valid). The response is the error alone: no order body is rendered.
\<close>

theorem ownership_mismatch_unauthorized:
  assumes acc: "accountFromContext r = Inr acc"
    and prov: "provisionerFromContext r = Inr prov"
    and fetch: "db_GetOrder c (ordID r) s = (Inr ord, s1)"
    and mismatch: "acc_ID acc \<noteq> o_AccountID ord \<or> GetID prov \<noteq> o_ProvisionerID ord"
  shows "(\<exists>msg. GetOrder c r s = (render_Error (NewError ErrorUnauthorizedType msg), s1)) \<and>
         (\<forall>payload csr fr.
            payloadFromContext r = Inr payload \<and> Unmarshal_fr c payload = Inr csr \<and>
            FinalizeRequest_Validate c \<lparr>fr_CSR = csr, fr_csr = None\<rparr> = Inr fr \<longrightarrow>
            (\<exists>msg. FinalizeOrder c r s
               = (render_Error (NewError ErrorUnauthorizedType msg), s1)))"
proof -
  have a: "\<exists>msg. GetOrder c r s = (render_Error (NewError ErrorUnauthorizedType msg), s1)"
    using GetOrder_mismatch [OF acc prov fetch mismatch] by blast
  have b: "\<forall>payload csr fr.
            payloadFromContext r = Inr payload \<and> Unmarshal_fr c payload = Inr csr \<and>
            FinalizeRequest_Validate c \<lparr>fr_CSR = csr, fr_csr = None\<rparr> = Inr fr \<longrightarrow>
            (\<exists>msg. FinalizeOrder c r s
               = (render_Error (NewError ErrorUnauthorizedType msg), s1))"
  proof (intro allI impI)
    fix payload csr and fr :: "'b FinalizeRequest"
    assume h: "payloadFromContext r = Inr payload \<and> Unmarshal_fr c payload = Inr csr \<and>
            FinalizeRequest_Validate c \<lparr>fr_CSR = csr, fr_csr = None\<rparr> = Inr fr"
    then have p: "payloadFromContext r = Inr payload" and u: "Unmarshal_fr c payload = Inr csr"
      and v: "FinalizeRequest_Validate c \<lparr>fr_CSR = csr, fr_csr = None\<rparr> = Inr fr"
      by blast+
    from FinalizeOrder_mismatch [OF acc prov p u v fetch mismatch]
    show "\<exists>msg. FinalizeOrder c r s
               = (render_Error (NewError ErrorUnauthorizedType msg), s1)"
      by blast
  qed
  from a b show ?thesis by blast
qed

theorem ownership_mismatch_unauthorized_witness:
  "(\<exists>msg. GetOrder (example_collaborators (example_nor []))
            (example_request_by ''acc2'' ''prov1'' ''csr'') example_store_ord
          = (render_Error (NewError ErrorUnauthorizedType msg), example_store_ord)) \<and>
   (\<exists>msg. FinalizeOrder (example_collaborators (example_nor []))
            (example_request_by ''acc1'' ''prov2'' ''csr'') example_store_ord
          = (render_Error (NewError ErrorUnauthorizedType msg), example_store_ord))"
proof -
  have m1: "acc_ID \<lparr>acc_ID = ''acc2''\<rparr> \<noteq> o_AccountID example_order \<or>
      GetID \<lparr>GetID = ''prov1'', DefaultTLSCertDuration = 24 * Hour\<rparr>
        \<noteq> o_ProvisionerID example_order"
    by (simp add: example_order_def)
  have m2: "acc_ID \<lparr>acc_ID = ''acc1''\<rparr> \<noteq> o_AccountID example_order \<or>
      GetID \<lparr>GetID = ''prov2'', DefaultTLSCertDuration = 24 * Hour\<rparr>
        \<noteq> o_ProvisionerID example_order"
    by (simp add: example_order_def)
  have u: "Unmarshal_fr (example_collaborators (example_nor [])) ''csr'' = Inr ''csr''"
    by (rule example_Unmarshal_fr) simp
  from ownership_mismatch_unauthorized
    [OF example_request_by_simps(1) example_request_by_simps(2) example_fetch m1]
  have 1: "\<exists>msg. GetOrder (example_collaborators (example_nor []))
            (example_request_by ''acc2'' ''prov1'' ''csr'') example_store_ord
          = (render_Error (NewError ErrorUnauthorizedType msg), example_store_ord)"
    by blast
  from ownership_mismatch_unauthorized
    [OF example_request_by_simps(1) example_request_by_simps(2) example_fetch m2]
    example_request_by_simps(3) u example_Validate_csr
  have 2: "\<exists>msg. FinalizeOrder (example_collaborators (example_nor []))
            (example_request_by ''acc1'' ''prov2'' ''csr'') example_store_ord
          = (render_Error (NewError ErrorUnauthorizedType msg), example_store_ord)"
    by blast
  from 1 2 show ?thesis by blast
qed

subsection \<open>Invalid identifier lists\<close>

text \<open>
  C4. Let the account and the provisioner be authenticated and the payload unmarshal to a
  new-order request. If the identifier list is empty, or holds an identifier whose type is
  neither DNS nor IP, or holds an IP identifier whose value does not parse as an IP
  address, then \<^verbatim>\<open>NewOrder\<close> renders \<^verbatim>\<open>acme.NewError\<close> of the malformed type, and the
  state at exit is the state at entry whatever storage is: no order, authorization or
  challenge was created. The first identifier of the list that fails a check decides the
  message: when it is an IP identifier whose value does not parse, the message is
  \<open>invalid IP address:\<close> followed by that value; in particular, when the list is not
  empty and every type is supported, the message names the value of an IP identifier of the
  list that does not parse.
\<close>

theorem NewOrder_invalid_identifiers:
  assumes acc: "accountFromContext r = Inr acc"
    and prov: "provisionerFromContext r = Inr prov"
    and payload: "payloadFromContext r = Inr payload"
    and unm: "Unmarshal_nor c payload = Inr nor"
    and invalid: "nor_Identifiers nor = [] \<or>
       (\<exists>i \<in> set (nor_Identifiers nor). id_Type i \<noteq> DNS \<and> id_Type i \<noteq> IP) \<or>
       (\<exists>i \<in> set (nor_Identifiers nor). id_Type i = IP \<and> ParseIP c (id_Value i) = None)"
  shows "(\<exists>msg. NewOrder c r s = (render_Error (NewError ErrorMalformedType msg), s)) \<and>
         (nor_Identifiers nor \<noteq> [] \<and>
          (\<forall>i \<in> set (nor_Identifiers nor). id_Type i = DNS \<or> id_Type i = IP) \<longrightarrow>
            (\<exists>i \<in> set (nor_Identifiers nor).
               id_Type i = IP \<and> ParseIP c (id_Value i) = None \<and>
               NewOrder c r s
                 = (render_Error (NewError ErrorMalformedType
                      (''invalid IP address: '' @ id_Value i)), s))) \<and>
         (\<forall>good i rest.
            nor_Identifiers nor = good @ i # rest \<and>
            (\<forall>j \<in> set good. (id_Type j = DNS \<or> id_Type j = IP) \<and>
               (id_Type j = IP \<longrightarrow> ParseIP c (id_Value j) \<noteq> None)) \<and>
            id_Type i = IP \<and> ParseIP c (id_Value i) = None \<longrightarrow>
            NewOrder c r s
              = (render_Error (NewError ErrorMalformedType
                   (''invalid IP address: '' @ id_Value i)), s))"
proof -
  have a: "\<exists>msg. NewOrderRequest_Validate c nor = Some (NewError ErrorMalformedType msg)"
  proof (cases "nor_Identifiers nor = []")
    case True
    then show ?thesis by (simp add: NewOrderRequest_Validate_def)
  next
    case False
    with invalid have "\<exists>i \<in> set (nor_Identifiers nor).
        (id_Type i \<noteq> DNS \<and> id_Type i \<noteq> IP) \<or>
        (id_Type i = IP \<and> ParseIP c (id_Value i) = None)"
      by blast
    from Validate_range_invalid [OF this] False show ?thesis
      by (simp add: NewOrderRequest_Validate_def)
  qed
  then obtain msg where v: "NewOrderRequest_Validate c nor
      = Some (NewError ErrorMalformedType msg)" ..
  have run: "NewOrder c r s = (render_Error (NewError ErrorMalformedType msg), s)"
    by (rule NewOrder_invalid [OF acc prov payload unm v])
  have b: "nor_Identifiers nor \<noteq> [] \<and>
          (\<forall>i \<in> set (nor_Identifiers nor). id_Type i = DNS \<or> id_Type i = IP) \<longrightarrow>
            (\<exists>i \<in> set (nor_Identifiers nor).
               id_Type i = IP \<and> ParseIP c (id_Value i) = None \<and>
               NewOrder c r s
                 = (render_Error (NewError ErrorMalformedType
                      (''invalid IP address: '' @ id_Value i)), s))"
  proof
    assume h: "nor_Identifiers nor \<noteq> [] \<and>
          (\<forall>i \<in> set (nor_Identifiers nor). id_Type i = DNS \<or> id_Type i = IP)"
    then have ne: "nor_Identifiers nor \<noteq> []"
      and sup: "\<forall>i \<in> set (nor_Identifiers nor). id_Type i = DNS \<or> id_Type i = IP"
      by blast+
    from v ne have "Validate_range c (nor_Identifiers nor)
        = Some (NewError ErrorMalformedType msg)"
      by (simp add: NewOrderRequest_Validate_def)
    from Validate_range_ip [OF sup this] run
    show "\<exists>i \<in> set (nor_Identifiers nor).
               id_Type i = IP \<and> ParseIP c (id_Value i) = None \<and>
               NewOrder c r s
                 = (render_Error (NewError ErrorMalformedType
                      (''invalid IP address: '' @ id_Value i)), s)"
      by auto
  qed
  have f: "\<forall>good i rest.
            nor_Identifiers nor = good @ i # rest \<and>
            (\<forall>j \<in> set good. (id_Type j = DNS \<or> id_Type j = IP) \<and>
               (id_Type j = IP \<longrightarrow> ParseIP c (id_Value j) \<noteq> None)) \<and>
            id_Type i = IP \<and> ParseIP c (id_Value i) = None \<longrightarrow>
            NewOrder c r s
              = (render_Error (NewError ErrorMalformedType
                   (''invalid IP address: '' @ id_Value i)), s)"
  proof (intro allI impI)
    fix good :: "Identifier list" and i :: Identifier and rest :: "Identifier list"
    assume h: "nor_Identifiers nor = good @ i # rest \<and>
            (\<forall>j \<in> set good. (id_Type j = DNS \<or> id_Type j = IP) \<and>
               (id_Type j = IP \<longrightarrow> ParseIP c (id_Value j) \<noteq> None)) \<and>
            id_Type i = IP \<and> ParseIP c (id_Value i) = None"
    then have ids: "nor_Identifiers nor = good @ i # rest"
      and good: "\<forall>j \<in> set good. (id_Type j = DNS \<or> id_Type j = IP) \<and>
               (id_Type j = IP \<longrightarrow> ParseIP c (id_Value j) \<noteq> None)"
      and ip: "id_Type i = IP" and bad: "ParseIP c (id_Value i) = None"
      by blast+
    have "Validate_range c (good @ i # rest) = Validate_range c (i # rest)"
      by (rule Validate_range_first [OF good])
    also have "\<dots> = Some (NewError ErrorMalformedType (''invalid IP address: '' @ id_Value i))"
      by (simp add: ip bad)
    finally have "NewOrderRequest_Validate c nor
        = Some (NewError ErrorMalformedType (''invalid IP address: '' @ id_Value i))"
      by (simp add: NewOrderRequest_Validate_def ids)
    from NewOrder_invalid [OF acc prov payload unm this]
    show "NewOrder c r s
              = (render_Error (NewError ErrorMalformedType
                   (''invalid IP address: '' @ id_Value i)), s)" .
  qed
  from run b f show ?thesis by blast
qed

theorem NewOrder_invalid_identifiers_witness:
  "(\<exists>msg. NewOrder (example_collaborators (example_nor [])) example_request example_store
      = (render_Error (NewError ErrorMalformedType msg), example_store)) \<and>
   (\<exists>msg. NewOrder
        (example_collaborators (example_nor [\<lparr>id_Type = ''email'', id_Value = ''a@example.com''\<rparr>]))
        example_request example_store
      = (render_Error (NewError ErrorMalformedType msg), example_store)) \<and>
   NewOrder (example_collaborators (example_nor [\<lparr>id_Type = IP, id_Value = ''not-an-ip''\<rparr>]))
        example_request example_store
      = (render_Error (NewError ErrorMalformedType ''invalid IP address: not-an-ip''),
         example_store) \<and>
   NewOrder
        (example_collaborators
           (example_nor [\<lparr>id_Type = DNS, id_Value = ''example.com''\<rparr>,
                         \<lparr>id_Type = IP, id_Value = ''300.1.1.1''\<rparr>,
                         \<lparr>id_Type = ''email'', id_Value = ''a@example.com''\<rparr>]))
        example_request example_store
      = (render_Error (NewError ErrorMalformedType ''invalid IP address: 300.1.1.1''),
         example_store)"
proof -
  let ?mixed = "[\<lparr>id_Type = DNS, id_Value = ''example.com''\<rparr>,
                 \<lparr>id_Type = IP, id_Value = ''300.1.1.1''\<rparr>,
                 \<lparr>id_Type = ''email'', id_Value = ''a@example.com''\<rparr>]"
  let ?email = "[\<lparr>id_Type = ''email'', id_Value = ''a@example.com''\<rparr>]"
  let ?ip = "[\<lparr>id_Type = IP, id_Value = ''not-an-ip''\<rparr>]"
  have i1: "nor_Identifiers (example_nor []) = [] \<or>
       (\<exists>i \<in> set (nor_Identifiers (example_nor [])). id_Type i \<noteq> DNS \<and> id_Type i \<noteq> IP) \<or>
       (\<exists>i \<in> set (nor_Identifiers (example_nor [])). id_Type i = IP \<and>
          ParseIP (example_collaborators (example_nor [])) (id_Value i) = None)"
    by (simp add: example_nor_def)
  have i2: "nor_Identifiers (example_nor ?email) = [] \<or>
       (\<exists>i \<in> set (nor_Identifiers (example_nor ?email)). id_Type i \<noteq> DNS \<and> id_Type i \<noteq> IP) \<or>
       (\<exists>i \<in> set (nor_Identifiers (example_nor ?email)). id_Type i = IP \<and>
          ParseIP (example_collaborators (example_nor ?email)) (id_Value i) = None)"
    by (simp add: example_nor_def DNS_def IP_def)
  have i3: "nor_Identifiers (example_nor ?ip) = [] \<or>
       (\<exists>i \<in> set (nor_Identifiers (example_nor ?ip)). id_Type i \<noteq> DNS \<and> id_Type i \<noteq> IP) \<or>
       (\<exists>i \<in> set (nor_Identifiers (example_nor ?ip)). id_Type i = IP \<and>
          ParseIP (example_collaborators (example_nor ?ip)) (id_Value i) = None)"
    by (simp add: example_nor_def example_collaborators_def)
  have s3: "nor_Identifiers (example_nor ?ip) \<noteq> [] \<and>
      (\<forall>i \<in> set (nor_Identifiers (example_nor ?ip)). id_Type i = DNS \<or> id_Type i = IP)"
    by (simp add: example_nor_def)
  have v3: "nor_Identifiers (example_nor ?ip) = ?ip"
    by (simp add: example_nor_def)
  from NewOrder_invalid_identifiers
    [OF example_request_simps(1) example_request_simps(2) example_request_simps(3)
      example_Unmarshal_nor i1]
  have 1: "\<exists>msg. NewOrder (example_collaborators (example_nor [])) example_request example_store
      = (render_Error (NewError ErrorMalformedType msg), example_store)"
    by blast
  from NewOrder_invalid_identifiers
    [OF example_request_simps(1) example_request_simps(2) example_request_simps(3)
      example_Unmarshal_nor i2]
  have 2: "\<exists>msg. NewOrder (example_collaborators (example_nor ?email))
        example_request example_store
      = (render_Error (NewError ErrorMalformedType msg), example_store)"
    by blast
  from NewOrder_invalid_identifiers
    [OF example_request_simps(1) example_request_simps(2) example_request_simps(3)
      example_Unmarshal_nor i3, of example_store] s3
  have "\<exists>i \<in> set (nor_Identifiers (example_nor ?ip)).
               id_Type i = IP \<and>
               ParseIP (example_collaborators (example_nor ?ip)) (id_Value i) = None \<and>
               NewOrder (example_collaborators (example_nor ?ip)) example_request example_store
                 = (render_Error (NewError ErrorMalformedType
                      (''invalid IP address: '' @ id_Value i)), example_store)"
    by blast
  then have 3: "NewOrder (example_collaborators (example_nor ?ip)) example_request example_store
      = (render_Error (NewError ErrorMalformedType ''invalid IP address: not-an-ip''),
         example_store)"
    unfolding v3 by simp
  have i4: "nor_Identifiers (example_nor ?mixed) = [] \<or>
       (\<exists>i \<in> set (nor_Identifiers (example_nor ?mixed)). id_Type i \<noteq> DNS \<and> id_Type i \<noteq> IP) \<or>
       (\<exists>i \<in> set (nor_Identifiers (example_nor ?mixed)). id_Type i = IP \<and>
          ParseIP (example_collaborators (example_nor ?mixed)) (id_Value i) = None)"
    by (simp add: example_nor_def example_collaborators_def)
  have s4: "nor_Identifiers (example_nor ?mixed)
        = [\<lparr>id_Type = DNS, id_Value = ''example.com''\<rparr>]
          @ \<lparr>id_Type = IP, id_Value = ''300.1.1.1''\<rparr>
          # [\<lparr>id_Type = ''email'', id_Value = ''a@example.com''\<rparr>] \<and>
      (\<forall>j \<in> set [\<lparr>id_Type = DNS, id_Value = ''example.com''\<rparr>].
         (id_Type j = DNS \<or> id_Type j = IP) \<and>
         (id_Type j = IP \<longrightarrow>
            ParseIP (example_collaborators (example_nor ?mixed)) (id_Value j) \<noteq> None)) \<and>
      id_Type \<lparr>id_Type = IP, id_Value = ''300.1.1.1''\<rparr> = IP \<and>
      ParseIP (example_collaborators (example_nor ?mixed))
        (id_Value \<lparr>id_Type = IP, id_Value = ''300.1.1.1''\<rparr>) = None"
    by (simp add: example_nor_def example_collaborators_def IP_neq_DNS [symmetric])
  from NewOrder_invalid_identifiers
    [OF example_request_simps(1) example_request_simps(2) example_request_simps(3)
      example_Unmarshal_nor i4, of example_store] s4
  have "NewOrder (example_collaborators (example_nor ?mixed)) example_request example_store
      = (render_Error (NewError ErrorMalformedType
           (''invalid IP address: ''
              @ id_Value \<lparr>id_Type = IP, id_Value = ''300.1.1.1''\<rparr>)), example_store)"
    by blast
  then have 4: "NewOrder (example_collaborators (example_nor ?mixed)) example_request
        example_store
      = (render_Error (NewError ErrorMalformedType ''invalid IP address: 300.1.1.1''),
         example_store)"
    by simp
  from 1 2 3 4 show ?thesis by blast
qed

subsection \<open>The order that \<^verbatim>\<open>NewOrder\<close> creates\<close>

text \<open>
  C5. Let the account and the provisioner be authenticated and the payload unmarshal to a
  new-order request.

  If the identifier list is valid (not empty, every type DNS or IP, every IP value parses)
  and the random source and the create operations of storage answer without an error, then
  \<^verbatim>\<open>NewOrder\<close> answers with an order, under the status code 201.

  Whenever \<^verbatim>\<open>NewOrder\<close> answers with an order, the identifier list is valid, and the body
  is what the linker makes of an order \<open>ord\<close> such that: \<open>ord\<close>, before storage gave it its
  ID, is the record handed to \<^verbatim>\<open>db.CreateOrder\<close>; its status is pending and it expires
  24 hours after the clock reading; its identifiers are those of the request; there is one
  successful \<^verbatim>\<open>newAuthorization\<close> per identifier, in the order of the identifiers, the run for
  the identifier at index \<open>k\<close> starting in the state \<open>ss ! k\<close> that the run before left and
  leaving the authorization \<open>azs ! k\<close>, built for that identifier with the expiry of the
  order; the ID of \<open>azs ! k\<close> stands at index \<open>k\<close> of the authorization IDs; and there are
  as many authorization IDs as identifiers.
\<close>

theorem NewOrder_creates_order:
  assumes acc: "accountFromContext r = Inr acc"
    and prov: "provisionerFromContext r = Inr prov"
    and payload: "payloadFromContext r = Inr payload"
    and unm: "Unmarshal_nor c payload = Inr nor"
  shows
    "(nor_Identifiers nor \<noteq> [] \<and>
      (\<forall>i \<in> set (nor_Identifiers nor). (id_Type i = DNS \<or> id_Type i = IP) \<and>
         (id_Type i = IP \<longrightarrow> ParseIP c (id_Value i) \<noteq> None)) \<and>
      (\<forall>s. \<exists>t s1. Alphanumeric c 32 s = (Inr t, s1)) \<and>
      (\<forall>ch s. \<exists>i s1. CreateChallenge c ch s = (Inr i, s1)) \<and>
      (\<forall>az s. \<exists>i s1. CreateAuthorization c az s = (Inr i, s1)) \<and>
      (\<forall>ord s. \<exists>i s1. CreateOrder c ord s = (Inr i, s1)) \<longrightarrow>
      (\<exists>loc body s'. NewOrder c r s = (render_JSONStatus loc body 201, s'))) \<and>
     (\<forall>loc body code s'.
        NewOrder c r s = (render_JSONStatus loc body code, s') \<longrightarrow>
        nor_Identifiers nor \<noteq> [] \<and>
        (\<forall>i \<in> set (nor_Identifiers nor). (id_Type i = DNS \<or> id_Type i = IP) \<and>
           (id_Type i = IP \<longrightarrow> ParseIP c (id_Value i) \<noteq> None)) \<and>
        (\<exists>ord azs ss.
           body = LinkOrder c ord \<and> code = 201 \<and>
           o_Status ord = StatusPending \<and> o_ExpiresAt ord = clock_Now r + 24 * Hour \<and>
           o_Identifiers ord = nor_Identifiers nor \<and>
           o_AuthorizationIDs ord = map az_ID azs \<and>
           length (o_AuthorizationIDs ord) = length (nor_Identifiers nor) \<and>
           length azs = length (nor_Identifiers nor) \<and>
           length ss = Suc (length (nor_Identifiers nor)) \<and> ss ! 0 = s \<and>
           (\<forall>k < length (nor_Identifiers nor).
              newAuthorization c
                \<lparr>az_ID = '''', az_AccountID = acc_ID acc,
                 az_Identifier = nor_Identifiers nor ! k,
                 az_Wildcard = False, az_Status = StatusPending, az_Token = '''',
                 az_Challenges = [], az_ExpiresAt = o_ExpiresAt ord\<rparr> (ss ! k)
                = (Inr (azs ! k), ss ! Suc k) \<and>
              az_ExpiresAt (azs ! k) = o_ExpiresAt ord \<and>
              o_AuthorizationIDs ord ! k = az_ID (azs ! k)) \<and>
           CreateOrder c (ord\<lparr>o_ID := ''''\<rparr>) (ss ! length (nor_Identifiers nor))
             = (Inr (o_ID ord), s')))"
proof (intro conjI allI impI)
  assume h: "nor_Identifiers nor \<noteq> [] \<and>
      (\<forall>i \<in> set (nor_Identifiers nor). (id_Type i = DNS \<or> id_Type i = IP) \<and>
         (id_Type i = IP \<longrightarrow> ParseIP c (id_Value i) \<noteq> None)) \<and>
      (\<forall>s. \<exists>t s1. Alphanumeric c 32 s = (Inr t, s1)) \<and>
      (\<forall>ch s. \<exists>i s1. CreateChallenge c ch s = (Inr i, s1)) \<and>
      (\<forall>az s. \<exists>i s1. CreateAuthorization c az s = (Inr i, s1)) \<and>
      (\<forall>ord s. \<exists>i s1. CreateOrder c ord s = (Inr i, s1))"
  then have valid: "NewOrderRequest_Validate c nor = None"
    using NewOrderRequest_Validate_None_iff [of c nor] by blast
  from h have rnd: "\<forall>s. \<exists>t s1. Alphanumeric c 32 s = (Inr t, s1)"
    and cch: "\<forall>ch s. \<exists>i s1. CreateChallenge c ch s = (Inr i, s1)"
    and caz: "\<forall>az s. \<exists>i s1. CreateAuthorization c az s = (Inr i, s1)"
    and cor: "\<forall>ord s. \<exists>i s1. CreateOrder c ord s = (Inr i, s1)"
    by blast+
  show "\<exists>loc body s'. NewOrder c r s = (render_JSONStatus loc body 201, s')"
    by (rule NewOrder_total [OF acc prov payload unm valid rnd cch caz cor])
next
  fix loc body code s'
  assume run: "NewOrder c r s = (render_JSONStatus loc body code, s')"
  from NewOrder_success [OF acc prov payload unm run refl]
  have valid: "NewOrderRequest_Validate c nor = None" by blast
  from valid show "nor_Identifiers nor \<noteq> []"
    using NewOrderRequest_Validate_None_iff [of c nor] by blast
  from valid show "\<forall>i \<in> set (nor_Identifiers nor). (id_Type i = DNS \<or> id_Type i = IP) \<and>
           (id_Type i = IP \<longrightarrow> ParseIP c (id_Value i) \<noteq> None)"
    using NewOrderRequest_Validate_None_iff [of c nor] by blast
  show "\<exists>ord azs ss.
           body = LinkOrder c ord \<and> code = 201 \<and>
           o_Status ord = StatusPending \<and> o_ExpiresAt ord = clock_Now r + 24 * Hour \<and>
           o_Identifiers ord = nor_Identifiers nor \<and>
           o_AuthorizationIDs ord = map az_ID azs \<and>
           length (o_AuthorizationIDs ord) = length (nor_Identifiers nor) \<and>
           length azs = length (nor_Identifiers nor) \<and>
           length ss = Suc (length (nor_Identifiers nor)) \<and> ss ! 0 = s \<and>
           (\<forall>k < length (nor_Identifiers nor).
              newAuthorization c
                \<lparr>az_ID = '''', az_AccountID = acc_ID acc,
                 az_Identifier = nor_Identifiers nor ! k,
                 az_Wildcard = False, az_Status = StatusPending, az_Token = '''',
                 az_Challenges = [], az_ExpiresAt = o_ExpiresAt ord\<rparr> (ss ! k)
                = (Inr (azs ! k), ss ! Suc k) \<and>
              az_ExpiresAt (azs ! k) = o_ExpiresAt ord \<and>
              o_AuthorizationIDs ord ! k = az_ID (azs ! k)) \<and>
           CreateOrder c (ord\<lparr>o_ID := ''''\<rparr>) (ss ! length (nor_Identifiers nor))
             = (Inr (o_ID ord), s')"
    by (rule NewOrder_answer [OF acc prov payload unm run])
qed

theorem NewOrder_creates_order_witness:
  "(\<exists>loc ord azs ss s'.
      NewOrder (numbered_collaborators (example_nor example_two)) example_request
        numbered_store_empty
        = (render_JSONStatus loc
             (LinkOrder (numbered_collaborators (example_nor example_two)) ord) 201, s') \<and>
      o_Status ord = StatusPending \<and>
      o_ExpiresAt ord = clock_Now example_request + 24 * Hour \<and>
      o_Identifiers ord = example_two \<and>
      o_AuthorizationIDs ord = [az_ID (azs ! 0), az_ID (azs ! 1)] \<and>
      length azs = 2 \<and> ss ! 0 = numbered_store_empty \<and>
      newAuthorization (numbered_collaborators (example_nor example_two))
        \<lparr>az_ID = '''', az_AccountID = ''acc1'', az_Identifier = example_two ! 0,
         az_Wildcard = False, az_Status = StatusPending, az_Token = '''',
         az_Challenges = [], az_ExpiresAt = o_ExpiresAt ord\<rparr> (ss ! 0)
        = (Inr (azs ! 0), ss ! 1) \<and>
      newAuthorization (numbered_collaborators (example_nor example_two))
        \<lparr>az_ID = '''', az_AccountID = ''acc1'', az_Identifier = example_two ! 1,
         az_Wildcard = False, az_Status = StatusPending, az_Token = '''',
         az_Challenges = [], az_ExpiresAt = o_ExpiresAt ord\<rparr> (ss ! 1)
        = (Inr (azs ! 1), ss ! 2) \<and>
      az_ExpiresAt (azs ! 0) = o_ExpiresAt ord \<and>
      az_ExpiresAt (azs ! 1) = o_ExpiresAt ord \<and>
      CreateOrder (numbered_collaborators (example_nor example_two)) (ord\<lparr>o_ID := ''''\<rparr>)
        (ss ! 2) = (Inr (o_ID ord), s')) \<and>
   (case numbered_run of
      (resp, s') \<Rightarrow>
        (map_option o_AuthorizationIDs (response_order resp),
         map az_ID (ns_authorizations s'),
         map az_Identifier (ns_authorizations s'),
         map (\<lambda>az. map ch_Type (az_Challenges az)) (ns_authorizations s')))
     = (Some [''id2'', ''id5''], [''id2'', ''id5''],
        [\<lparr>id_Type = DNS, id_Value = ''example.com''\<rparr>,
         \<lparr>id_Type = IP, id_Value = ''192.0.2.1''\<rparr>],
        [[DNS01], [HTTP01, TLSALPN01]])"
proof -
  let ?c = "numbered_collaborators (example_nor example_two)"
  let ?ids = "nor_Identifiers (example_nor example_two)"
  note both = NewOrder_creates_order
    [OF example_request_simps(1) example_request_simps(2) example_request_simps(3)
      numbered_Unmarshal_nor, where s = numbered_store_empty]
  have ids: "?ids = example_two" by (simp add: example_nor_def)
  have n: "length ?ids = 2" by (simp add: example_nor_def example_two_def)
  from both [THEN conjunct1] example_two_valid numbered_never_fails
  obtain loc body s' where
    run: "NewOrder ?c example_request numbered_store_empty = (render_JSONStatus loc body 201, s')"
    by blast
  note answer = both [THEN conjunct2, rule_format, OF run, THEN conjunct2, THEN conjunct2]
  from answer obtain ord azs ss where
    body: "body = LinkOrder ?c ord" and
    st: "o_Status ord = StatusPending" and
    ex: "o_ExpiresAt ord = clock_Now example_request + 24 * Hour" and
    oi: "o_Identifiers ord = ?ids" and
    au: "o_AuthorizationIDs ord = map az_ID azs" and
    la: "length azs = length ?ids" and
    s0: "ss ! 0 = numbered_store_empty" and
    steps: "\<forall>k < length ?ids.
              newAuthorization ?c
                \<lparr>az_ID = '''', az_AccountID = acc_ID \<lparr>acc_ID = ''acc1''\<rparr>,
                 az_Identifier = ?ids ! k,
                 az_Wildcard = False, az_Status = StatusPending, az_Token = '''',
                 az_Challenges = [], az_ExpiresAt = o_ExpiresAt ord\<rparr> (ss ! k)
                = (Inr (azs ! k), ss ! Suc k) \<and>
              az_ExpiresAt (azs ! k) = o_ExpiresAt ord \<and>
              o_AuthorizationIDs ord ! k = az_ID (azs ! k)" and
    mk: "CreateOrder ?c (ord\<lparr>o_ID := ''''\<rparr>) (ss ! length ?ids) = (Inr (o_ID ord), s')"
    by (elim exE conjE) (rule that, assumption+)
  from la n have la2: "length azs = 2" by simp
  then have azs: "azs = [azs ! 0, azs ! 1]"
    by (cases azs; cases "tl azs") (auto simp: numeral_2_eq_2)
  have au2: "o_AuthorizationIDs ord = [az_ID (azs ! 0), az_ID (azs ! 1)]"
    unfolding au by (subst azs) simp
  from steps n have k0: "newAuthorization ?c
        \<lparr>az_ID = '''', az_AccountID = ''acc1'', az_Identifier = example_two ! 0,
         az_Wildcard = False, az_Status = StatusPending, az_Token = '''',
         az_Challenges = [], az_ExpiresAt = o_ExpiresAt ord\<rparr> (ss ! 0)
        = (Inr (azs ! 0), ss ! 1)" and e0: "az_ExpiresAt (azs ! 0) = o_ExpiresAt ord"
    using ids by (simp_all add: numeral_2_eq_2)
  from steps n have k1: "newAuthorization ?c
        \<lparr>az_ID = '''', az_AccountID = ''acc1'', az_Identifier = example_two ! 1,
         az_Wildcard = False, az_Status = StatusPending, az_Token = '''',
         az_Challenges = [], az_ExpiresAt = o_ExpiresAt ord\<rparr> (ss ! 1)
        = (Inr (azs ! 1), ss ! 2)" and e1: "az_ExpiresAt (azs ! 1) = o_ExpiresAt ord"
    using ids by (simp_all add: numeral_2_eq_2)
  have mk2: "CreateOrder ?c (ord\<lparr>o_ID := ''''\<rparr>) (ss ! 2) = (Inr (o_ID ord), s')"
    using mk n by simp
  have run': "NewOrder ?c example_request numbered_store_empty
        = (render_JSONStatus loc (LinkOrder ?c ord) 201, s')"
    using run body by simp
  have oi2: "o_Identifiers ord = example_two" using oi ids by simp
  have first: "\<exists>loc ord azs ss s'.
      NewOrder ?c example_request numbered_store_empty
        = (render_JSONStatus loc (LinkOrder ?c ord) 201, s') \<and>
      o_Status ord = StatusPending \<and>
      o_ExpiresAt ord = clock_Now example_request + 24 * Hour \<and>
      o_Identifiers ord = example_two \<and>
      o_AuthorizationIDs ord = [az_ID (azs ! 0), az_ID (azs ! 1)] \<and>
      length azs = 2 \<and> ss ! 0 = numbered_store_empty \<and>
      newAuthorization ?c
        \<lparr>az_ID = '''', az_AccountID = ''acc1'', az_Identifier = example_two ! 0,
         az_Wildcard = False, az_Status = StatusPending, az_Token = '''',
         az_Challenges = [], az_ExpiresAt = o_ExpiresAt ord\<rparr> (ss ! 0)
        = (Inr (azs ! 0), ss ! 1) \<and>
      newAuthorization ?c
        \<lparr>az_ID = '''', az_AccountID = ''acc1'', az_Identifier = example_two ! 1,
         az_Wildcard = False, az_Status = StatusPending, az_Token = '''',
         az_Challenges = [], az_ExpiresAt = o_ExpiresAt ord\<rparr> (ss ! 1)
        = (Inr (azs ! 1), ss ! 2) \<and>
      az_ExpiresAt (azs ! 0) = o_ExpiresAt ord \<and>
      az_ExpiresAt (azs ! 1) = o_ExpiresAt ord \<and>
      CreateOrder ?c (ord\<lparr>o_ID := ''''\<rparr>) (ss ! 2) = (Inr (o_ID ord), s')"
    using run' st ex oi2 au2 la2 s0 k0 k1 e0 e1 mk2
    by (intro exI [of _ loc] exI [of _ ord] exI [of _ azs] exI [of _ ss] exI [of _ s'] conjI)
  from first numbered_run_value show ?thesis by (rule conjI)
qed

subsection \<open>The default validity window\<close>

text \<open>
  C6, as stated, fails. For a request that gives neither \<^verbatim>\<open>notBefore\<close> nor
  \<^verbatim>\<open>notAfter\<close>, \<^verbatim>\<open>NewOrder\<close> sets \<^verbatim>\<open>NotBefore\<close> to the clock reading, then
  \<^verbatim>\<open>NotAfter\<close> to that \<^verbatim>\<open>NotBefore\<close> plus the provisioner's default duration, and only
  then moves \<^verbatim>\<open>NotBefore\<close> back by one minute. In the example of the spec (the clock at
  \<open>1000 * Hour\<close>, the default duration 24 hours) the order created has
  \<^verbatim>\<open>NotBefore\<close> one minute before the clock reading, as the claim says, but its
  \<^verbatim>\<open>NotAfter\<close> is \<open>1024 * Hour\<close>, one minute more than its \<^verbatim>\<open>NotBefore\<close> plus the
  default duration.
\<close>

theorem NewOrder_default_validity_counterexample:
  "IsZero (nor_NotBefore (example_nor [\<lparr>id_Type = DNS, id_Value = ''*.example.com''\<rparr>])) \<and>
   IsZero (nor_NotAfter (example_nor [\<lparr>id_Type = DNS, id_Value = ''*.example.com''\<rparr>])) \<and>
   provisionerFromContext example_request
     = Inr \<lparr>GetID = ''prov1'', DefaultTLSCertDuration = 24 * Hour\<rparr> \<and>
   fst example_new_order_run
     = render_JSONStatus ''/acme/order/id3'' example_created_order 201 \<and>
   o_NotBefore example_created_order = clock_Now example_request - Minute \<and>
   o_NotAfter example_created_order \<noteq> o_NotBefore example_created_order + 24 * Hour"
proof -
  have 1: "IsZero (nor_NotBefore (example_nor [\<lparr>id_Type = DNS, id_Value = ''*.example.com''\<rparr>]))"
    and 2: "IsZero (nor_NotAfter (example_nor [\<lparr>id_Type = DNS, id_Value = ''*.example.com''\<rparr>]))"
    by (simp_all add: IsZero_def example_nor_def)
  have 3: "o_NotBefore example_created_order = clock_Now example_request - Minute"
    by (simp add: example_created_order_def example_request_def)
  have 4: "o_NotAfter example_created_order \<noteq> o_NotBefore example_created_order + 24 * Hour"
    by (simp add: example_created_order_def Hour_def Minute_def)
  from 1 2 example_request_simps(2) example_new_order_run_value 3 4 show ?thesis
    by (intro conjI)
qed

text \<open>
  C6, amended. For a request that gives neither \<^verbatim>\<open>notBefore\<close> nor \<^verbatim>\<open>notAfter\<close>, the
  order that \<^verbatim>\<open>NewOrder\<close> creates (the record handed to \<^verbatim>\<open>db.CreateOrder\<close>, with the
  ID storage gave it) has \<^verbatim>\<open>NotBefore\<close> one minute before the clock reading and
  \<^verbatim>\<open>NotAfter\<close> at the clock reading plus the provisioner's default duration, that is
  its \<^verbatim>\<open>NotBefore\<close> plus one minute plus the default duration.
\<close>

theorem NewOrder_default_validity:
  assumes acc: "accountFromContext r = Inr acc"
    and prov: "provisionerFromContext r = Inr prov"
    and payload: "payloadFromContext r = Inr payload"
    and unm: "Unmarshal_nor c payload = Inr nor"
    and nbf: "IsZero (nor_NotBefore nor)"
    and naf: "IsZero (nor_NotAfter nor)"
    and run: "NewOrder c r s = (render_JSONStatus loc body code, s')"
  shows "\<exists>ord s1.
     body = LinkOrder c ord \<and>
     CreateOrder c (ord\<lparr>o_ID := ''''\<rparr>) s1 = (Inr (o_ID ord), s') \<and>
     o_NotBefore ord = clock_Now r - Minute \<and>
     o_NotAfter ord = clock_Now r + DefaultTLSCertDuration prov \<and>
     o_NotAfter ord = o_NotBefore ord + Minute + DefaultTLSCertDuration prov"
proof -
  let ?n = "length (nor_Identifiers nor)"
  define ord0 where "ord0 =
          \<lparr>o_ID = '''', o_AccountID = acc_ID acc, o_ProvisionerID = GetID prov,
           o_Status = StatusPending, o_Identifiers = nor_Identifiers nor,
           o_ExpiresAt = Add (clock_Now r) defaultOrderExpiry,
           o_AuthorizationIDs = replicate (length (nor_Identifiers nor)) '''',
           o_NotBefore = nor_NotBefore nor, o_NotAfter = nor_NotAfter nor\<rparr>"
  from NewOrder_success [OF acc prov payload unm run ord0_def]
  obtain ord1 s1 i ord4 where
    rng: "NewOrder_range c acc ord0 (nor_Identifiers nor) 0 s = (Inr ord1, s1)" and
    ord4: "ord4 =
       (let ord2 = (if IsZero (o_NotBefore ord1) then ord1\<lparr>o_NotBefore := clock_Now r\<rparr>
                    else ord1);
            ord3 = (if IsZero (o_NotAfter ord2)
                    then ord2\<lparr>o_NotAfter :=
                              Add (o_NotBefore ord2) (DefaultTLSCertDuration prov)\<rparr>
                    else ord2)
        in (if IsZero (nor_NotBefore nor)
            then ord3\<lparr>o_NotBefore := Add (o_NotBefore ord3) (- defaultOrderBackdate)\<rparr>
            else ord3))" and
    mk: "CreateOrder c ord4 s1 = (Inr i, s')" and
    body: "body = LinkOrder c (ord4\<lparr>o_ID := i\<rparr>)"
    by blast
  have bound: "0 + ?n \<le> length (o_AuthorizationIDs ord0)"
    by (simp add: ord0_def)
  from NewOrder_range_result [OF rng bound] obtain ids where
    ord1: "ord1 = ord0\<lparr>o_AuthorizationIDs := ids\<rparr>"
    by blast
  have f1: "o_ID ord1 = ''''" "o_NotBefore ord1 = nor_NotBefore nor"
    "o_NotAfter ord1 = nor_NotAfter nor"
    by (simp_all add: ord1 ord0_def)
  have z1: "IsZero (o_NotBefore ord1)" and z2: "IsZero (o_NotAfter ord1)"
    using nbf naf by (simp_all add: f1)
  have ord4': "ord4 = ord1\<lparr>o_NotBefore := clock_Now r - Minute,
                           o_NotAfter := clock_Now r + DefaultTLSCertDuration prov\<rparr>"
    by (simp add: ord4 Let_def z1 z2 nbf Add_def defaultOrderBackdate_def)
  let ?ord = "ord4\<lparr>o_ID := i\<rparr>"
  have same: "?ord\<lparr>o_ID := ''''\<rparr> = ord4"
    using f1(1) by (cases ord1) (simp add: ord4')
  have "CreateOrder c (?ord\<lparr>o_ID := ''''\<rparr>) s1 = (Inr (o_ID ?ord), s')"
    unfolding same using mk by simp
  moreover have "o_NotBefore ?ord = clock_Now r - Minute"
    and "o_NotAfter ?ord = clock_Now r + DefaultTLSCertDuration prov"
    and "o_NotAfter ?ord = o_NotBefore ?ord + Minute + DefaultTLSCertDuration prov"
    by (simp_all add: ord4')
  ultimately show ?thesis using body
    by (intro exI [of _ ?ord] exI [of _ s1]) blast
qed

theorem NewOrder_default_validity_witness:
  "\<exists>ord. example_created_order
       = LinkOrder (example_collaborators
           (example_nor [\<lparr>id_Type = DNS, id_Value = ''*.example.com''\<rparr>])) ord \<and>
     o_NotBefore ord = clock_Now example_request - Minute \<and>
     o_NotAfter ord = clock_Now example_request + 24 * Hour"
proof -
  let ?ids = "[\<lparr>id_Type = DNS, id_Value = ''*.example.com''\<rparr>]"
  have nbf: "IsZero (nor_NotBefore (example_nor ?ids))"
    and naf: "IsZero (nor_NotAfter (example_nor ?ids))"
    by (simp_all add: IsZero_def example_nor_def)
  from NewOrder_default_validity
    [OF example_request_simps(1) example_request_simps(2) example_request_simps(3)
      example_Unmarshal_nor nbf naf example_new_order_run_ok]
  obtain ord where
    1: "example_created_order = LinkOrder (example_collaborators (example_nor ?ids)) ord" and
    2: "o_NotBefore ord = clock_Now example_request - Minute" and
    3: "o_NotAfter ord = clock_Now example_request
          + DefaultTLSCertDuration \<lparr>GetID = ''prov1'', DefaultTLSCertDuration = 24 * Hour\<rparr>"
    by (elim exE conjE) (rule that, assumption+)
  from 3 have "o_NotAfter ord = clock_Now example_request + 24 * Hour" by simp
  with 1 2 show ?thesis by (intro exI [of _ ord] conjI)
qed

subsection \<open>Finalizing with an invalid certificate request\<close>

text \<open>
  C8. Let the account and the provisioner be authenticated and the payload unmarshal to the
  CSR field \<open>csr\<close>. If \<open>csr\<close> fails base64url decoding, or its bytes fail to parse as a
  certificate request, or the parsed request fails its signature check, then
  \<^verbatim>\<open>FinalizeOrder\<close> renders \<^verbatim>\<open>acme.WrapError\<close> of the malformed type around the cause, and
  the state at exit is the state at entry whatever storage is: nothing was written, and the
  order has the status it had.
\<close>

theorem FinalizeOrder_invalid_csr:
  assumes acc: "accountFromContext r = Inr acc"
    and prov: "provisionerFromContext r = Inr prov"
    and payload: "payloadFromContext r = Inr payload"
    and unm: "Unmarshal_fr c payload = Inr csr"
  shows "(\<forall>e. DecodeString c csr = Inl e \<longrightarrow>
            FinalizeOrder c r s
              = (render_Error (WrapError ErrorMalformedType (Foreign e)
                   ''error base64url decoding csr''), s)) \<and>
         (\<forall>b e. DecodeString c csr = Inr b \<and> ParseCertificateRequest c b = Inl e \<longrightarrow>
            FinalizeOrder c r s
              = (render_Error (WrapError ErrorMalformedType (Foreign e)
                   ''unable to parse csr''), s)) \<and>
         (\<forall>b x e. DecodeString c csr = Inr b \<and> ParseCertificateRequest c b = Inr x \<and>
              CheckSignature c x = Some e \<longrightarrow>
            FinalizeOrder c r s
              = (render_Error (WrapError ErrorMalformedType (Foreign e)
                   ''csr failed signature check''), s))"
proof -
  have a: "\<forall>e. DecodeString c csr = Inl e \<longrightarrow>
            FinalizeOrder c r s
              = (render_Error (WrapError ErrorMalformedType (Foreign e)
                   ''error base64url decoding csr''), s)"
  proof (intro allI impI)
    fix e assume d: "DecodeString c csr = Inl e"
    have "FinalizeRequest_Validate c \<lparr>fr_CSR = csr, fr_csr = None\<rparr>
        = Inl (WrapError ErrorMalformedType (Foreign e) ''error base64url decoding csr'')"
      by (simp add: FinalizeRequest_Validate_def d)
    from FinalizeOrder_invalid [OF acc prov payload unm this]
    show "FinalizeOrder c r s
              = (render_Error (WrapError ErrorMalformedType (Foreign e)
                   ''error base64url decoding csr''), s)" .
  qed
  have b: "\<forall>b e. DecodeString c csr = Inr b \<and> ParseCertificateRequest c b = Inl e \<longrightarrow>
            FinalizeOrder c r s
              = (render_Error (WrapError ErrorMalformedType (Foreign e)
                   ''unable to parse csr''), s)"
  proof (intro allI impI)
    fix b e assume h: "DecodeString c csr = Inr b \<and> ParseCertificateRequest c b = Inl e"
    then have d: "DecodeString c csr = Inr b" and p: "ParseCertificateRequest c b = Inl e"
      by blast+
    have "FinalizeRequest_Validate c \<lparr>fr_CSR = csr, fr_csr = None\<rparr>
        = Inl (WrapError ErrorMalformedType (Foreign e) ''unable to parse csr'')"
      by (simp add: FinalizeRequest_Validate_def d p)
    from FinalizeOrder_invalid [OF acc prov payload unm this]
    show "FinalizeOrder c r s
              = (render_Error (WrapError ErrorMalformedType (Foreign e)
                   ''unable to parse csr''), s)" .
  qed
  have c: "\<forall>b x e. DecodeString c csr = Inr b \<and> ParseCertificateRequest c b = Inr x \<and>
              CheckSignature c x = Some e \<longrightarrow>
            FinalizeOrder c r s
              = (render_Error (WrapError ErrorMalformedType (Foreign e)
                   ''csr failed signature check''), s)"
  proof (intro allI impI)
    fix b x e
    assume h: "DecodeString c csr = Inr b \<and> ParseCertificateRequest c b = Inr x \<and>
              CheckSignature c x = Some e"
    then have d: "DecodeString c csr = Inr b" and p: "ParseCertificateRequest c b = Inr x"
      and k: "CheckSignature c x = Some e"
      by blast+
    have "FinalizeRequest_Validate c \<lparr>fr_CSR = csr, fr_csr = None\<rparr>
        = Inl (WrapError ErrorMalformedType (Foreign e) ''csr failed signature check'')"
      by (simp add: FinalizeRequest_Validate_def d p k)
    from FinalizeOrder_invalid [OF acc prov payload unm this]
    show "FinalizeOrder c r s
              = (render_Error (WrapError ErrorMalformedType (Foreign e)
                   ''csr failed signature check''), s)" .
  qed
  from a b c show ?thesis by blast
qed

theorem FinalizeOrder_invalid_csr_witness:
  "FinalizeOrder (example_collaborators (example_nor []))
     (example_request_by ''acc1'' ''prov1'' ''!csr'') example_store_ord
     = (render_Error (WrapError ErrorMalformedType (Foreign ''illegal base64 data'')
          ''error base64url decoding csr''), example_store_ord) \<and>
   FinalizeOrder (example_collaborators (example_nor []))
     (example_request_by ''acc1'' ''prov1'' ''garbage'') example_store_ord
     = (render_Error (WrapError ErrorMalformedType (Foreign ''asn1: syntax error'')
          ''unable to parse csr''), example_store_ord) \<and>
   FinalizeOrder (example_collaborators (example_nor []))
     (example_request_by ''acc1'' ''prov1'' ''csr-badsig'') example_store_ord
     = (render_Error (WrapError ErrorMalformedType (Foreign ''x509: signature check failed'')
          ''csr failed signature check''), example_store_ord) \<and>
   map o_Status (st_orders example_store_ord) = [StatusPending]"
proof -
  have u1: "Unmarshal_fr (example_collaborators (example_nor [])) ''!csr'' = Inr ''!csr''"
    by (rule example_Unmarshal_fr) simp
  have u2: "Unmarshal_fr (example_collaborators (example_nor [])) ''garbage'' = Inr ''garbage''"
    by (rule example_Unmarshal_fr) simp
  have u3: "Unmarshal_fr (example_collaborators (example_nor [])) ''csr-badsig''
      = Inr ''csr-badsig''"
    by (rule example_Unmarshal_fr) simp
  have d1: "DecodeString (example_collaborators (example_nor [])) ''!csr''
      = Inl ''illegal base64 data''"
    by (simp add: example_collaborators_def HasPrefix_def)
  have d2: "DecodeString (example_collaborators (example_nor [])) ''garbage'' = Inr ''garbage''
      \<and> ParseCertificateRequest (example_collaborators (example_nor [])) ''garbage''
          = Inl ''asn1: syntax error''"
    by (simp add: example_collaborators_def HasPrefix_def)
  have d3: "DecodeString (example_collaborators (example_nor [])) ''csr-badsig''
        = Inr ''csr-badsig''
      \<and> ParseCertificateRequest (example_collaborators (example_nor [])) ''csr-badsig''
          = Inr ''csr-badsig''
      \<and> CheckSignature (example_collaborators (example_nor [])) ''csr-badsig''
          = Some ''x509: signature check failed''"
    by (simp add: example_collaborators_def HasPrefix_def)
  have st: "map o_Status (st_orders example_store_ord) = [StatusPending]"
    by (simp add: example_store_ord_def example_order_def)
  from FinalizeOrder_invalid_csr
    [OF example_request_by_simps(1) example_request_by_simps(2) example_request_by_simps(3) u1]
    d1
  have 1: "FinalizeOrder (example_collaborators (example_nor []))
     (example_request_by ''acc1'' ''prov1'' ''!csr'') example_store_ord
     = (render_Error (WrapError ErrorMalformedType (Foreign ''illegal base64 data'')
          ''error base64url decoding csr''), example_store_ord)"
    by blast
  from FinalizeOrder_invalid_csr
    [OF example_request_by_simps(1) example_request_by_simps(2) example_request_by_simps(3) u2]
    d2
  have 2: "FinalizeOrder (example_collaborators (example_nor []))
     (example_request_by ''acc1'' ''prov1'' ''garbage'') example_store_ord
     = (render_Error (WrapError ErrorMalformedType (Foreign ''asn1: syntax error'')
          ''unable to parse csr''), example_store_ord)"
    by blast
  from FinalizeOrder_invalid_csr
    [OF example_request_by_simps(1) example_request_by_simps(2) example_request_by_simps(3) u3]
    d3
  have 3: "FinalizeOrder (example_collaborators (example_nor []))
     (example_request_by ''acc1'' ''prov1'' ''csr-badsig'') example_store_ord
     = (render_Error (WrapError ErrorMalformedType (Foreign ''x509: signature check failed'')
          ''csr failed signature check''), example_store_ord)"
    by blast
  from 1 2 3 st show ?thesis by blast
qed

subsection \<open>Validation comes before the fetch\<close>

text \<open>
  C9. \<^verbatim>\<open>FinalizeOrder\<close> unmarshals the payload and validates the CSR before it asks
  storage for the order. Let the account and the provisioner be authenticated and the
  payload fail to unmarshal or carry an invalid CSR. Then the response is
  \<^verbatim>\<open>acme.WrapError\<close> of the malformed type and the state at exit is the state at entry;
  and the outcome is the same for every order ID in the request and for every behaviour
  \<open>g\<close> of \<^verbatim>\<open>db.GetOrder\<close> and \<open>f\<close> of \<^verbatim>\<open>Order.Finalize\<close>: whether the order exists, who owns
  it and what reading it would do to storage make no difference, since the order is neither
  read nor written.
\<close>

theorem FinalizeOrder_validates_before_fetch:
  assumes acc: "accountFromContext r = Inr acc"
    and prov: "provisionerFromContext r = Inr prov"
    and payload: "payloadFromContext r = Inr payload"
    and invalid: "(\<exists>e. Unmarshal_fr c payload = Inl e) \<or>
                  (\<exists>csr e. Unmarshal_fr c payload = Inr csr \<and>
                     FinalizeRequest_Validate c \<lparr>fr_CSR = csr, fr_csr = None\<rparr> = Inl e)"
  shows "(\<exists>cause msg. FinalizeOrder c r s
            = (render_Error (WrapError ErrorMalformedType (Foreign cause) msg), s)) \<and>
         (\<forall>g f i. FinalizeOrder (c\<lparr>db_GetOrder := g, Finalize := f\<rparr>) (r\<lparr>ordID := i\<rparr>) s
            = FinalizeOrder c r s)"
proof -
  have indep: "FinalizeOrder (c\<lparr>db_GetOrder := g, Finalize := f\<rparr>) (r\<lparr>ordID := i\<rparr>) s
                 = (render_Error err, s)"
    if "FinalizeOrder c r s = (render_Error err, s)"
      and "(Unmarshal_fr c payload = Inl e \<and>
              err = WrapError ErrorMalformedType (Foreign e)
                      ''failed to unmarshal finalize-order request payload'') \<or>
           (Unmarshal_fr c payload = Inr csr \<and>
              FinalizeRequest_Validate c \<lparr>fr_CSR = csr, fr_csr = None\<rparr> = Inl err)"
    for g f i err e csr
  proof -
    let ?c = "c\<lparr>db_GetOrder := g, Finalize := f\<rparr>" and ?r = "r\<lparr>ordID := i\<rparr>"
    have acc': "accountFromContext ?r = Inr acc" and prov': "provisionerFromContext ?r = Inr prov"
      and payload': "payloadFromContext ?r = Inr payload"
      by (simp_all add: acc prov payload)
    from that(2) show ?thesis
    proof
      assume h: "Unmarshal_fr c payload = Inl e \<and>
              err = WrapError ErrorMalformedType (Foreign e)
                      ''failed to unmarshal finalize-order request payload''"
      then have "Unmarshal_fr ?c payload = Inl e" by simp
      from FinalizeOrder_unmarshal_error [OF acc' prov' payload' this] h
      show ?thesis by simp
    next
      assume h: "Unmarshal_fr c payload = Inr csr \<and>
              FinalizeRequest_Validate c \<lparr>fr_CSR = csr, fr_csr = None\<rparr> = Inl err"
      then have u: "Unmarshal_fr ?c payload = Inr csr" by simp
      from h have v: "FinalizeRequest_Validate ?c \<lparr>fr_CSR = csr, fr_csr = None\<rparr> = Inl err"
        by (simp only: FinalizeRequest_Validate_collaborators)
      from FinalizeOrder_invalid [OF acc' prov' payload' u v]
      show ?thesis .
    qed
  qed
  from invalid show ?thesis
  proof
    assume "\<exists>e. Unmarshal_fr c payload = Inl e"
    then obtain e where u: "Unmarshal_fr c payload = Inl e" ..
    let ?err = "WrapError ErrorMalformedType (Foreign e)
                      ''failed to unmarshal finalize-order request payload''"
    have run: "FinalizeOrder c r s = (render_Error ?err, s)"
      by (rule FinalizeOrder_unmarshal_error [OF acc prov payload u])
    have "\<forall>g f i. FinalizeOrder (c\<lparr>db_GetOrder := g, Finalize := f\<rparr>) (r\<lparr>ordID := i\<rparr>) s
            = FinalizeOrder c r s"
      using indep [OF run, of e] u run by simp
    with run show ?thesis by blast
  next
    assume "\<exists>csr e. Unmarshal_fr c payload = Inr csr \<and>
                     FinalizeRequest_Validate c \<lparr>fr_CSR = csr, fr_csr = None\<rparr> = Inl e"
    then obtain csr err where u: "Unmarshal_fr c payload = Inr csr"
      and v: "FinalizeRequest_Validate c \<lparr>fr_CSR = csr, fr_csr = None\<rparr> = Inl err"
      by blast
    from FinalizeRequest_Validate_error [OF v] obtain cause msg where
      err: "err = WrapError ErrorMalformedType (Foreign cause) msg" by blast
    have run: "FinalizeOrder c r s = (render_Error err, s)"
      by (rule FinalizeOrder_invalid [OF acc prov payload u v])
    have "\<forall>g f i. FinalizeOrder (c\<lparr>db_GetOrder := g, Finalize := f\<rparr>) (r\<lparr>ordID := i\<rparr>) s
            = FinalizeOrder c r s"
      using indep [OF run, of _ csr] u v run by simp
    with run err show ?thesis by blast
  qed
qed

theorem FinalizeOrder_validates_before_fetch_witness:
  "(\<exists>cause msg. FinalizeOrder (example_collaborators (example_nor []))
       (example_request_by ''acc2'' ''prov1'' ''!csr'') example_store_ord
     = (render_Error (WrapError ErrorMalformedType (Foreign cause) msg), example_store_ord)) \<and>
   FinalizeOrder
     ((example_collaborators (example_nor []))
        \<lparr>db_GetOrder := (\<lambda>i s. (Inl (Foreign ''order not found''), s\<lparr>st_orders := []\<rparr>)),
         Finalize := (\<lambda>ord csr prov s. (Inl (Foreign ''no authority''), s))\<rparr>)
     ((example_request_by ''acc2'' ''prov1'' ''!csr'')\<lparr>ordID := ''ord9''\<rparr>) example_store_ord
   = FinalizeOrder (example_collaborators (example_nor []))
       (example_request_by ''acc2'' ''prov1'' ''!csr'') example_store_ord"
proof -
  have u: "Unmarshal_fr (example_collaborators (example_nor [])) ''!csr'' = Inr ''!csr''"
    by (rule example_Unmarshal_fr) simp
  have v: "FinalizeRequest_Validate (example_collaborators (example_nor []))
      \<lparr>fr_CSR = ''!csr'', fr_csr = None\<rparr>
      = Inl (WrapError ErrorMalformedType (Foreign ''illegal base64 data'')
           ''error base64url decoding csr'')"
    by (simp add: FinalizeRequest_Validate_def example_collaborators_def HasPrefix_def)
  have invalid: "(\<exists>e. Unmarshal_fr (example_collaborators (example_nor [])) ''!csr'' = Inl e) \<or>
      (\<exists>csr e. Unmarshal_fr (example_collaborators (example_nor [])) ''!csr'' = Inr csr \<and>
         FinalizeRequest_Validate (example_collaborators (example_nor []))
           \<lparr>fr_CSR = csr, fr_csr = None\<rparr> = Inl e)"
    using u v by blast
  from FinalizeOrder_validates_before_fetch
    [OF example_request_by_simps(1) example_request_by_simps(2) example_request_by_simps(3)
      invalid]
  show ?thesis by blast
qed

subsection \<open>No status recomputation for a foreign order\<close>

text \<open>
  C10. \<^verbatim>\<open>GetOrder\<close> checks the owner of the order before it calls \<^verbatim>\<open>UpdateStatus\<close>. Let the
  account and the provisioner be authenticated and the fetched order belong to another
  account or to another provisioner. Then the state at exit is the state \<open>s1\<close> that the fetch
  itself left, and the outcome is the same for every behaviour \<open>u\<close> of \<^verbatim>\<open>UpdateStatus\<close>:
  the recomputation does not run, and the stored order stays as it was.
\<close>

theorem GetOrder_mismatch_no_update:
  assumes acc: "accountFromContext r = Inr acc"
    and prov: "provisionerFromContext r = Inr prov"
    and fetch: "db_GetOrder c (ordID r) s = (Inr ord, s1)"
    and mismatch: "acc_ID acc \<noteq> o_AccountID ord \<or> GetID prov \<noteq> o_ProvisionerID ord"
  shows "snd (GetOrder c r s) = s1 \<and>
         (\<forall>u. GetOrder (c\<lparr>UpdateStatus := u\<rparr>) r s = GetOrder c r s)"
proof -
  have a: "snd (GetOrder c r s) = s1"
    by (simp add: GetOrder_mismatch [OF acc prov fetch mismatch])
  have b: "\<forall>u. GetOrder (c\<lparr>UpdateStatus := u\<rparr>) r s = GetOrder c r s"
  proof
    fix u
    have fetch': "db_GetOrder (c\<lparr>UpdateStatus := u\<rparr>) (ordID r) s = (Inr ord, s1)"
      using fetch by simp
    show "GetOrder (c\<lparr>UpdateStatus := u\<rparr>) r s = GetOrder c r s"
      by (simp only: GetOrder_mismatch [OF acc prov fetch' mismatch]
          GetOrder_mismatch [OF acc prov fetch mismatch])
  qed
  from a b show ?thesis by blast
qed

theorem GetOrder_mismatch_no_update_witness:
  "snd (GetOrder (example_collaborators (example_nor []))
          (example_request_by ''acc2'' ''prov1'' '''') example_store_ord) = example_store_ord \<and>
   GetOrder
     ((example_collaborators (example_nor []))
        \<lparr>UpdateStatus := (\<lambda>ord s. (Inr (ord\<lparr>o_Status := StatusInvalid\<rparr>),
                                  s\<lparr>st_orders := [ord\<lparr>o_Status := StatusInvalid\<rparr>]\<rparr>))\<rparr>)
     (example_request_by ''acc2'' ''prov1'' '''') example_store_ord
   = GetOrder (example_collaborators (example_nor []))
       (example_request_by ''acc2'' ''prov1'' '''') example_store_ord"
proof -
  have m: "acc_ID \<lparr>acc_ID = ''acc2''\<rparr> \<noteq> o_AccountID example_order \<or>
      GetID \<lparr>GetID = ''prov1'', DefaultTLSCertDuration = 24 * Hour\<rparr>
        \<noteq> o_ProvisionerID example_order"
    by (simp add: example_order_def)
  from GetOrder_mismatch_no_update
    [OF example_request_by_simps(1) example_request_by_simps(2) example_fetch m]
  show ?thesis by blast
qed

end
